theory Spec2Isabelle
  imports Main "HOL-Library.Word"
begin

section \<open>Values shared by the server code\<close>

text \<open>
  The TypeScript sources verified here are \<^verbatim>\<open>DocumentHelper\<close> (conversion, diffing and
  diff compaction), the collaboration server's \<^verbatim>\<open>PersistenceExtension\<close> and
  \<^verbatim>\<open>BaseEmail.send\<close>. JavaScript exceptions are values of the type \<open>error\<close>; a function
  that may throw returns \<open>error + 'a\<close> with \<open>Inl\<close> for the exception.
\<close>

type_synonym bytes = "8 word list"

datatype error = Error string | TypeError string | EmptyResultError

section \<open>The DOM below \<^verbatim>\<open>#content\<close>\<close>

text \<open>
  \<^verbatim>\<open>toEmailDiff\<close> reads four properties of the element children of \<^verbatim>\<open>#content\<close>:
  \<^verbatim>\<open>nodeName\<close>, \<^verbatim>\<open>textContent\<close>, \<^verbatim>\<open>innerHTML\<close>, and (through \<^verbatim>\<open>body.innerHTML\<close>) their
  serialisation. Strings are byte lists; the character U+2026 of the break marker is its
  three UTF-8 bytes.
\<close>

record element =
  nodeName :: string
  textContent :: string
  innerHTML :: string
  outerHTML :: string

text \<open>\<^verbatim>\<open>String.prototype.startsWith\<close> and \<^verbatim>\<open>String.prototype.includes\<close>, with the pattern
  as the first argument of \<open>starts_with\<close> and the second of \<open>str_includes\<close>.\<close>

fun starts_with :: "string \<Rightarrow> string \<Rightarrow> bool" where
  "starts_with [] s = True"
| "starts_with (a # p) [] = False"
| "starts_with (a # p) (c # s) = (a = c \<and> starts_with p s)"

fun str_includes :: "string \<Rightarrow> string \<Rightarrow> bool" where
  "str_includes [] p = (p = [])"
| "str_includes (c # cs) p = (starts_with p (c # cs) \<or> str_includes cs p)"

text \<open>
  \<^verbatim>\<open>const containsDiffElement = (node: Element | null) =>
    node && node.innerHTML.includes("data-operation-index")\<close>
\<close>

definition containsDiffElement :: "element option \<Rightarrow> bool" where
  "containsDiffElement node =
     (case node of None \<Rightarrow> False | Some n \<Rightarrow> str_includes (innerHTML n) ''data-operation-index'')"

definition ellipsis :: string where
  "ellipsis = [CHR 0xE2, CHR 0x80, CHR 0xA6]"

text \<open>
  \<^verbatim>\<open>const br = doc.createElement("div"); br.innerHTML = <U+2026>;
  br.className = "diff-context-break";\<close>
\<close>

definition br :: element where
  \<open>br = \<lparr> nodeName = ''DIV'', textContent = ellipsis, innerHTML = ellipsis,
           outerHTML = ''<div class="diff-context-break">'' @ ellipsis @ ''</div>'' \<rparr>\<close>

text \<open>
  The live child list of \<^verbatim>\<open>#content\<close>. A child is either one of the elements selected by
  \<^verbatim>\<open>doc.querySelectorAll("#content > *")\<close>, identified by its index in that static
  NodeList, or a clone of \<open>br\<close> inserted by the loop.
\<close>

datatype dom_child = Child nat element | BreakClone

fun element_of :: "dom_child \<Rightarrow> element" where
  "element_of (Child i e) = e"
| "element_of BreakClone = br"

fun is_child :: "nat \<Rightarrow> dom_child \<Rightarrow> bool" where
  "is_child i (Child j e) = (j = i)"
| "is_child i BreakClone = False"

text \<open>\<^verbatim>\<open>childNode.nextElementSibling\<close> and \<^verbatim>\<open>childNode.previousElementSibling\<close>, read from
  the live list (after the removals and insertions made so far).\<close>

definition nextElementSibling :: "dom_child list \<Rightarrow> nat \<Rightarrow> element option" where
  "nextElementSibling live i =
     (case dropWhile (\<lambda>c. \<not> is_child i c) live of
        _ # n # _ \<Rightarrow> Some (element_of n)
      | _ \<Rightarrow> None)"

definition previousElementSibling :: "dom_child list \<Rightarrow> nat \<Rightarrow> element option" where
  "previousElementSibling live i =
     (if \<exists>c \<in> set live. is_child i c
      then (case rev (takeWhile (\<lambda>c. \<not> is_child i c) live) of
              [] \<Rightarrow> None
            | p # _ \<Rightarrow> Some (element_of p))
      else None)"

text \<open>\<^verbatim>\<open>childNode.parentElement?.insertBefore(br.cloneNode(true), childNode)\<close>: a node that is
  no longer in the list has no parent, and nothing is inserted.\<close>

definition insertBefore_br :: "dom_child list \<Rightarrow> nat \<Rightarrow> dom_child list" where
  "insertBefore_br live i =
     (if \<exists>c \<in> set live. is_child i c
      then takeWhile (\<lambda>c. \<not> is_child i c) live @ BreakClone # dropWhile (\<lambda>c. \<not> is_child i c) live
      else live)"

text \<open>\<^verbatim>\<open>childNode.remove()\<close>\<close>

definition remove_child :: "dom_child list \<Rightarrow> nat \<Rightarrow> dom_child list" where
  "remove_child live i = filter (\<lambda>c. \<not> is_child i c) live"

section \<open>The compaction loop of \<^verbatim>\<open>toEmailDiff\<close>\<close>

record loop_state =
  live :: "dom_child list"
  previousNodeRemoved :: bool
  previousDiffClipped :: bool

text \<open>One iteration of \<^verbatim>\<open>for (const childNode of contents)\<close>; \<open>i\<close> is the position of
  \<open>childNode\<close> in the static NodeList.\<close>

definition iteration :: "loop_state \<Rightarrow> nat \<times> element \<Rightarrow> loop_state" where
  "iteration s c =
     (case c of (i, childNode) \<Rightarrow>
        if containsDiffElement (Some childNode) then
          s\<lparr> live := (if previousNodeRemoved s \<and> previousDiffClipped s
                       then insertBefore_br (live s) i else live s),
             previousNodeRemoved := False,
             previousDiffClipped := True \<rparr>
        else if nodeName childNode = ''P'' \<and> textContent childNode \<noteq> [] \<and>
                map_option nodeName (nextElementSibling (live s) i) = Some ''P'' \<and>
                containsDiffElement (nextElementSibling (live s) i) then
          s\<lparr> live := (if previousDiffClipped s
                       then insertBefore_br (live s) i else live s),
             previousNodeRemoved := False \<rparr>
        else if nodeName childNode = ''P'' \<and> textContent childNode \<noteq> [] \<and>
                map_option nodeName (previousElementSibling (live s) i) = Some ''P'' \<and>
                containsDiffElement (previousElementSibling (live s) i) then
          s\<lparr> previousNodeRemoved := False \<rparr>
        else
          s\<lparr> live := remove_child (live s) i, previousNodeRemoved := True \<rparr>)"

text \<open>The static NodeList: the children with their positions.\<close>

definition querySelectorAll_content :: "element list \<Rightarrow> (nat \<times> element) list" where
  "querySelectorAll_content blocks = enumerate 0 blocks"

definition initial_state :: "element list \<Rightarrow> loop_state" where
  "initial_state blocks =
     \<lparr> live = map (\<lambda>(i, e). Child i e) (querySelectorAll_content blocks),
       previousNodeRemoved = False,
       previousDiffClipped = False \<rparr>"

text \<open>The children of \<^verbatim>\<open>#content\<close> when the loop has ended.\<close>

definition compacted :: "element list \<Rightarrow> dom_child list" where
  "compacted blocks =
     live (foldl iteration (initial_state blocks) (querySelectorAll_content blocks))"

section \<open>Documents, revisions and the libraries \<^verbatim>\<open>DocumentHelper\<close> calls\<close>

text \<open>
  \<^verbatim>\<open>Document | Revision\<close>: the fields \<^verbatim>\<open>DocumentHelper\<close> reads and writes. A Revision has no
  \<^verbatim>\<open>state\<close> property and a Document may hold \<^verbatim>\<open>null\<close>; both are \<open>None\<close>, so that
  \<^verbatim>\<open>"state" in document && document.state\<close> is \<open>doc_state document \<noteq> None\<close> (a Buffer is
  truthy whatever its length). \<open>changed\<close> is the set of keys marked by
  \<^verbatim>\<open>document.changed(key, true)\<close>.
\<close>

record document =
  doc_id :: string
  doc_title :: string
  doc_text :: string
  doc_state :: "bytes option"
  changed :: "string set"

text \<open>\<^verbatim>\<open>type HTMLOptions = { includeTitle?: boolean; includeStyles?: boolean; centered?: boolean }\<close>\<close>

record HTMLOptions =
  includeTitle :: "bool option"
  includeStyles :: "bool option"
  centered :: "bool option"

text \<open>
  What the React tree rendered by \<^verbatim>\<open>toHTML\<close> depends on:
  \<^verbatim>\<open>options?.includeTitle !== false\<close>, \<^verbatim>\<open>options?.includeStyles === false\<close>,
  \<^verbatim>\<open>options?.centered\<close>, \<^verbatim>\<open>isRTL(document.title)\<close> and \<^verbatim>\<open>document.title\<close>.
\<close>

record page_props =
  with_title :: bool
  without_styles :: bool
  centered_article :: bool
  rtl :: bool
  title :: string

text \<open>
  What \<^verbatim>\<open>toEmailDiff\<close> reads from a parsed page: \<^verbatim>\<open>head.innerHTML\<close>, the elements selected
  by \<^verbatim>\<open>#content > *\<close>, and the markup of \<^verbatim>\<open>body.innerHTML\<close> before and after them.
\<close>

record content_page =
  head_innerHTML :: string
  body_prefix :: string
  children :: "element list"
  body_suffix :: string

text \<open>
  The libraries are parameters: yjs (\<open>'y\<close> is a \<^verbatim>\<open>Y.Doc\<close>, \<open>'f\<close> a \<^verbatim>\<open>Y.XmlFragment\<close>),
  y-prosemirror, the editor's Markdown parser and schema (\<open>'j\<close> is Prosemirror JSON, \<open>'n\<close> a
  Prosemirror \<^verbatim>\<open>Node\<close>), React with styled-components, jsdom (\<open>'d\<close> is a parsed document)
  and node-htmldiff. \<open>article_innerHTML\<close> is
  \<^verbatim>\<open>document.getElementsByTagName("article")[0].innerHTML\<close> (\<open>None\<close> when there is no
  article, where the property access throws a TypeError), \<open>set_article_innerHTML\<close> is
  \<^verbatim>\<open>const article = document.querySelector("article"); if (article) article.innerHTML = html\<close>,
  and \<open>serializeFragment\<close> is
  \<^verbatim>\<open>DOMSerializer.fromSchema(schema).serializeFragment(node.content, {document: doc}, doc.getElementById("content"))\<close>.
  \<open>type_doc\<close> is the property \<^verbatim>\<open>type.doc\<close>, and \<open>updateYFragment\<close> returns the \<^verbatim>\<open>Y.Doc\<close>
  it has changed in place.

  A call into yjs, y-prosemirror or the editor's parser and schema returns a value or throws
  (\<^verbatim>\<open>Y.applyUpdate\<close> on bytes that are no update, \<^verbatim>\<open>Node.fromJSON\<close> on JSON that does not fit
  the schema), and so does the rendering that \<^verbatim>\<open>toHTML\<close> wraps in \<^verbatim>\<open>try\<close>: the result of such
  a call is \<open>Inr\<close> the value or \<open>Inl\<close> the exception. The constructor \<^verbatim>\<open>new Y.Doc()\<close>, the
  property \<^verbatim>\<open>type.doc\<close>, \<^verbatim>\<open>isRTL\<close>, the DOM serializer and the calls into jsdom and
  node-htmldiff return values.
\<close>

record ('y, 'f, 'j, 'n, 'd) libraries =
  Y_Doc :: 'y
  Y_applyUpdate :: "'y \<Rightarrow> bytes \<Rightarrow> error + 'y"
  Y_encodeStateAsUpdate :: "'y \<Rightarrow> error + bytes"
  ydoc_get :: "'y \<Rightarrow> string \<Rightarrow> error + 'f"
  type_doc :: "'f \<Rightarrow> 'y option"
  updateYFragment :: "'y \<Rightarrow> 'f \<Rightarrow> 'n \<Rightarrow> error + 'y"
  yDocToProsemirrorJSON :: "'y \<Rightarrow> string \<Rightarrow> error + 'j"
  Node_fromJSON :: "'j \<Rightarrow> error + 'n"
  parser_parse :: "string \<Rightarrow> error + 'n"
  isRTL :: "string \<Rightarrow> bool"
  renderToString :: "page_props \<Rightarrow> error + string"
  getStyleTags :: "page_props \<Rightarrow> error + string"
  JSDOM :: "string \<Rightarrow> 'd"
  serializeFragment :: "'n \<Rightarrow> 'd \<Rightarrow> 'd"
  serialize :: "'d \<Rightarrow> string"
  article_innerHTML :: "'d \<Rightarrow> string option"
  set_article_innerHTML :: "'d \<Rightarrow> string \<Rightarrow> 'd"
  htmldiff :: "string \<Rightarrow> string \<Rightarrow> string"
  content_of :: "'d \<Rightarrow> content_page"

section \<open>\<^verbatim>\<open>DocumentHelper\<close>\<close>

text \<open>
  \<^verbatim>\<open>static toProsemirror(document: Document | Revision) {
    if ("state" in document && document.state) {
      const ydoc = new Y.Doc();
      Y.applyUpdate(ydoc, document.state);
      return Node.fromJSON(schema, yDocToProsemirrorJSON(ydoc, "default"));
    }
    return parser.parse(document.text);
  }\<close>
\<close>

definition toProsemirror :: "('y, 'f, 'j, 'n, 'd) libraries \<Rightarrow> document \<Rightarrow> error + 'n" where
  "toProsemirror L document =
     (case doc_state document of
        Some state \<Rightarrow>
          (case Y_applyUpdate L (Y_Doc L) state of
             Inl err \<Rightarrow> Inl err
           | Inr ydoc \<Rightarrow>
               (case yDocToProsemirrorJSON L ydoc ''default'' of
                  Inl err \<Rightarrow> Inl err
                | Inr json \<Rightarrow> Node_fromJSON L json))
      | None \<Rightarrow> parser_parse L (doc_text document))"

text \<open>A template literal prints an undefined value as the word \<^verbatim>\<open>undefined\<close>.\<close>

fun template_string :: "string option \<Rightarrow> string" where
  "template_string None = ''undefined''"
| "template_string (Some s) = s"

definition props_of :: "('y, 'f, 'j, 'n, 'd) libraries \<Rightarrow> document \<Rightarrow> HTMLOptions option \<Rightarrow> page_props" where
  "props_of L document options =
     \<lparr> with_title = (Option.bind options includeTitle \<noteq> Some False),
       without_styles = (Option.bind options includeStyles = Some False),
       centered_article = (Option.bind options centered = Some True),
       rtl = isRTL L (doc_title document),
       title = doc_title document \<rparr>"

text \<open>
  The \<^verbatim>\<open>try\<close> block of \<^verbatim>\<open>toHTML\<close> assigns \<^verbatim>\<open>html\<close>, then \<^verbatim>\<open>styleTags\<close>; the \<^verbatim>\<open>catch\<close> logs
  and goes on, leaving what was not assigned undefined. The log line has no part in the
  string returned and is left out. \<^verbatim>\<open>toProsemirror\<close> is called before the \<^verbatim>\<open>try\<close> block, so an
  exception it throws is thrown by \<^verbatim>\<open>toHTML\<close>.
\<close>

definition render_shell :: "('y, 'f, 'j, 'n, 'd) libraries \<Rightarrow> page_props \<Rightarrow> string option \<times> string option" where
  "render_shell L props =
     (case renderToString L props of
        Inl err \<Rightarrow> (None, None)
      | Inr html \<Rightarrow>
          (case getStyleTags L props of
             Inl err \<Rightarrow> (Some html, None)
           | Inr styleTags \<Rightarrow> (Some html, Some styleTags)))"

definition toHTML :: "('y, 'f, 'j, 'n, 'd) libraries \<Rightarrow> document \<Rightarrow> HTMLOptions option \<Rightarrow> error + string" where
  "toHTML L document options =
     (case toProsemirror L document of
        Inl err \<Rightarrow> Inl err
      | Inr node \<Rightarrow>
          (let props = props_of L document options;
               (html, styleTags) = render_shell L props;
               dom = JSDOM L (''<!DOCTYPE html>''
                       @ (if without_styles props then [] else template_string styleTags)
                       @ template_string html)
           in Inr (serialize L (serializeFragment L node dom))))"

text \<open>
  \<^verbatim>\<open>static diff(before: Document | Revision | null, after: Revision, options?: HTMLOptions)\<close>
\<close>

definition diff :: "('y, 'f, 'j, 'n, 'd) libraries \<Rightarrow> document option \<Rightarrow> document \<Rightarrow> HTMLOptions option \<Rightarrow> error + string" where
  "diff L before after options =
     (case before of
        None \<Rightarrow> toHTML L after options
      | Some b \<Rightarrow>
          (case toHTML L b options of
             Inl err \<Rightarrow> Inl err
           | Inr beforeHTML \<Rightarrow>
               (case toHTML L after options of
                  Inl err \<Rightarrow> Inl err
                | Inr afterHTML \<Rightarrow>
                    (let beforeDOM = JSDOM L beforeHTML;
                         afterDOM = JSDOM L afterHTML
                     in case article_innerHTML L beforeDOM of
                          None \<Rightarrow> Inl (TypeError ''Cannot read properties of undefined (reading 'innerHTML')'')
                        | Some beforeArticle \<Rightarrow>
                            (case article_innerHTML L afterDOM of
                               None \<Rightarrow> Inl (TypeError ''Cannot read properties of undefined (reading 'innerHTML')'')
                             | Some afterArticle \<Rightarrow>
                                 (let diffedContentAsHTML = htmldiff L beforeArticle afterArticle
                                  in Inr (serialize L (set_article_innerHTML L beforeDOM diffedContentAsHTML))))))))"

text \<open>
  \<^verbatim>\<open>static toEmailDiff(before: Document | Revision | null, after: Revision, options?: HTMLOptions)\<close>:
  the result is \<^verbatim>\<open>`${head?.innerHTML} ${body?.innerHTML}`\<close> of the page whose \<^verbatim>\<open>#content\<close>
  children the loop has compacted.
\<close>

definition toEmailDiff :: "('y, 'f, 'j, 'n, 'd) libraries \<Rightarrow> document option \<Rightarrow> document \<Rightarrow> HTMLOptions option \<Rightarrow> error + string" where
  "toEmailDiff L before after options =
     (case before of
        None \<Rightarrow> Inr []
      | Some b \<Rightarrow>
          (case diff L (Some b) after options of
             Inl err \<Rightarrow> Inl err
           | Inr html \<Rightarrow>
               (let page = content_of L (JSDOM L html);
                    contents = compacted (children page)
                in Inr (head_innerHTML page @ '' '' @ body_prefix page
                          @ concat (map (\<lambda>c. outerHTML (element_of c)) contents)
                          @ body_suffix page))))"


section \<open>\<^verbatim>\<open>PersistenceExtension\<close>\<close>

text \<open>
  The collaboration server calls \<^verbatim>\<open>onLoadDocument\<close>, \<^verbatim>\<open>onChange\<close> and \<^verbatim>\<open>onStoreDocument\<close> with
  the name of the document (\<^verbatim>\<open>"document.<id>"\<close>), the live \<^verbatim>\<open>Y.Doc\<close> and the connection's
  context. What they read and change is held in one state: the Document rows, the queries
  sent to the database, the log, the field \<^verbatim>\<open>documentCollaboratorIds\<close> and the calls made to
  \<^verbatim>\<open>documentCollaborativeUpdater\<close>.
\<close>

record user =
  user_id :: string
  user_name :: string

record hocuspocus_context =
  context_user :: "user option"

text \<open>\<^verbatim>\<open>{ documentId, ydoc, userId }\<close>, the argument of \<^verbatim>\<open>documentCollaborativeUpdater\<close>.\<close>

record 'y updater_args =
  updater_documentId :: "string option"
  updater_ydoc :: 'y
  updater_userId :: "string option"

datatype lock_mode = UPDATE

text \<open>
  The queries of \<^verbatim>\<open>onLoadDocument\<close>: \<open>FindOne\<close> is
  \<^verbatim>\<open>Document.scope("withState").findOne({ transaction, lock, rejectOnEmpty: true, where: { id } })\<close>
  and \<open>Update\<close> is
  \<^verbatim>\<open>document.update({ state }, { silent: true, hooks: false, transaction })\<close>; both are given
  the transaction opened by \<open>Begin\<close>.
\<close>

datatype query =
    Begin
  | FindOne "string option" lock_mode
  | Update string bytes
  | Commit
  | Rollback

datatype log_entry =
    Info string string
  | Debug string string
  | LogError string error "string option" "string option"

record 'y server =
  database :: "document list"
  queries :: "query list"
  log :: "log_entry list"
  documentCollaboratorIds :: "string \<rightharpoonup> string option list"
  updater_calls :: "'y updater_args list"

text \<open>
  The functions of the collaboration layer that \<^verbatim>\<open>PersistenceExtension\<close> calls:
  \<^verbatim>\<open>data.document.isEmpty(fieldName)\<close>, \<^verbatim>\<open>markdownToYDoc(text, fieldName)\<close> and
  \<^verbatim>\<open>documentCollaborativeUpdater(args)\<close>, of which only the exception it throws, if any,
  matters here. \<^verbatim>\<open>markdownToYDoc\<close> parses the text and may throw as the parser does.
\<close>

record 'y collaboration =
  isEmpty :: "'y \<Rightarrow> string \<Rightarrow> bool"
  markdownToYDoc :: "string \<Rightarrow> string \<Rightarrow> error + 'y"
  documentCollaborativeUpdater :: "'y updater_args \<Rightarrow> error option"

text \<open>\<^verbatim>\<open>String.prototype.split\<close> with a one-character separator.\<close>

fun split :: "char \<Rightarrow> string \<Rightarrow> string list" where
  "split sep [] = [[]]"
| "split sep (c # cs) =
     (if c = sep then [] # split sep cs
      else (case split sep cs of
              [] \<Rightarrow> [[c]]
            | w # ws \<Rightarrow> (c # w) # ws))"

text \<open>\<^verbatim>\<open>const [, documentId] = documentName.split(".")\<close>\<close>

definition documentId_of :: "string \<Rightarrow> string option" where
  "documentId_of documentName =
     (case split CHR ''.'' documentName of
        _ # documentId # _ \<Rightarrow> Some documentId
      | _ \<Rightarrow> None)"

text \<open>
  \<^verbatim>\<open>findOne\<close> with \<^verbatim>\<open>rejectOnEmpty: true\<close> throws when no row matches; the query builder
  rejects an undefined value in \<^verbatim>\<open>where\<close>.
\<close>

definition findOne :: "document list \<Rightarrow> string option \<Rightarrow> error + document" where
  \<open>findOne db ident =
     (case ident of
        None \<Rightarrow> Inl (Error ''WHERE parameter "id" has invalid "undefined" value'')
      | Some i \<Rightarrow>
          (case find (\<lambda>row. doc_id row = i) db of
             None \<Rightarrow> Inl EmptyResultError
           | Some row \<Rightarrow> Inr row))\<close>

text \<open>\<^verbatim>\<open>document.update({ state }, ...)\<close> writes the column of the row with the document's id.\<close>

definition update_state :: "document list \<Rightarrow> string \<Rightarrow> bytes \<Rightarrow> document list" where
  "update_state db i state =
     map (\<lambda>row. if doc_id row = i then row\<lparr> doc_state := Some state \<rparr> else row) db"

text \<open>
  \<^verbatim>\<open>sequelize.transaction(async (transaction) => { ... })\<close>: the callback's writes are committed
  when it returns and rolled back when it throws, and the exception is thrown on.
\<close>

definition transaction :: "'y server \<Rightarrow> ('y server \<Rightarrow> (error + 'a) \<times> 'y server) \<Rightarrow> (error + 'a) \<times> 'y server" where
  "transaction s callback =
     (case callback (s\<lparr> queries := queries s @ [Begin] \<rparr>) of
        (Inl err, s') \<Rightarrow> (Inl err, s'\<lparr> database := database s, queries := queries s' @ [Rollback] \<rparr>)
      | (Inr result, s') \<Rightarrow> (Inr result, s'\<lparr> queries := queries s' @ [Commit] \<rparr>))"

text \<open>
  \<^verbatim>\<open>async onLoadDocument({ documentName, ...data }: onLoadDocumentPayload)\<close>; \<open>None\<close> is the
  \<^verbatim>\<open>undefined\<close> of the bare \<^verbatim>\<open>return\<close>.
\<close>

definition onLoadDocument ::
  "('y, 'f, 'j, 'n, 'd) libraries \<Rightarrow> 'y collaboration \<Rightarrow> 'y server \<Rightarrow> string \<Rightarrow> 'y \<Rightarrow> (error + 'y option) \<times> 'y server" where
  "onLoadDocument L C s documentName data_document =
     (let documentId = documentId_of documentName;
          fieldName = ''default''
      in if \<not> isEmpty C data_document fieldName then (Inr None, s)
         else transaction s (\<lambda>s.
           let s = s\<lparr> queries := queries s @ [FindOne documentId UPDATE] \<rparr>
           in case findOne (database s) documentId of
                Inl err \<Rightarrow> (Inl err, s)
              | Inr document \<Rightarrow>
                  (case doc_state document of
                     Some state \<Rightarrow>
                       (let s = s\<lparr> log := log s @ [Info ''database''
                                  (''Document '' @ template_string documentId @ '' is in database state'')] \<rparr>
                        in case Y_applyUpdate L (Y_Doc L) state of
                             Inl err \<Rightarrow> (Inl err, s)
                           | Inr ydoc \<Rightarrow> (Inr (Some ydoc), s))
                   | None \<Rightarrow>
                       (let s = s\<lparr> log := log s @ [Info ''database''
                                  (''Document '' @ template_string documentId
                                     @ '' is not in state, creating from markdown'')] \<rparr>
                        in case markdownToYDoc C (doc_text document) fieldName of
                             Inl err \<Rightarrow> (Inl err, s)
                           | Inr ydoc \<Rightarrow>
                               (case Y_encodeStateAsUpdate L ydoc of
                                  Inl err \<Rightarrow> (Inl err, s)
                                | Inr state \<Rightarrow>
                                    (let s = s\<lparr> database := update_state (database s) (doc_id document) state,
                                               queries := queries s @ [Update (doc_id document) state] \<rparr>
                                     in (Inr (Some ydoc), s)))))))"

text \<open>A JavaScript \<^verbatim>\<open>Set\<close> keeps its members in insertion order: \<^verbatim>\<open>state.add(x)\<close>.\<close>

definition set_add :: "'a \<Rightarrow> 'a list \<Rightarrow> 'a list" where
  "set_add x xs = (if x \<in> set xs then xs else xs @ [x])"

text \<open>\<^verbatim>\<open>async onChange({ context, documentName }: onChangePayload)\<close>\<close>

definition onChange :: "'y server \<Rightarrow> hocuspocus_context \<Rightarrow> string \<Rightarrow> 'y server" where
  "onChange s context documentName =
     (let s = s\<lparr> log := log s @ [Debug ''multiplayer''
                 (template_string (map_option user_name (context_user context))
                    @ '' changed '' @ documentName)] \<rparr>;
          state = (case documentCollaboratorIds s documentName of None \<Rightarrow> [] | Some ids \<Rightarrow> ids);
          state = set_add (map_option user_id (context_user context)) state
      in s\<lparr> documentCollaboratorIds := (documentCollaboratorIds s)(documentName \<mapsto> state) \<rparr>)"

text \<open>\<^verbatim>\<open>Array.prototype.pop\<close> on an array of ids: the last member, undefined on the empty array.\<close>

definition pop :: "string option list \<Rightarrow> string option" where
  "pop ids = (if ids = [] then None else last ids)"

text \<open>
  \<^verbatim>\<open>async onStoreDocument({ document, context, documentName }: onStoreDocumentPayload)\<close>; the
  result is \<open>Inr ()\<close> when the promise resolves.
\<close>

definition onStoreDocument ::
  "'y collaboration \<Rightarrow> 'y server \<Rightarrow> 'y \<Rightarrow> hocuspocus_context \<Rightarrow> string \<Rightarrow> (error + unit) \<times> 'y server" where
  "onStoreDocument C s document context documentName =
     (let documentId = documentId_of documentName;
          collaboratorIds =
            (case documentCollaboratorIds s documentName of
               Some ids \<Rightarrow> ids
             | None \<Rightarrow> [map_option user_id (context_user context)]);
          s = s\<lparr> documentCollaboratorIds := (documentCollaboratorIds s)(documentName := None) \<rparr>;
          args = \<lparr> updater_documentId = documentId, updater_ydoc = document,
                   updater_userId = pop collaboratorIds \<rparr>;
          s = s\<lparr> updater_calls := updater_calls s @ [args] \<rparr>
      in case documentCollaborativeUpdater C args of
           None \<Rightarrow> (Inr (), s)
         | Some err \<Rightarrow>
             (Inr (), s\<lparr> log := log s @ [LogError ''Unable to persist document'' err
                                             documentId (map_option user_id (context_user context))] \<rparr>))"

section \<open>\<^verbatim>\<open>BaseEmail.send\<close>\<close>

text \<open>
  \<^verbatim>\<open>type NotificationMetadata = { notificationId?: string }\<close>; an email is built from its
  props and optional metadata.
\<close>

record NotificationMetadata =
  notificationId :: "string option"

text \<open>What \<^verbatim>\<open>beforeSend\<close> resolves to: \<^verbatim>\<open>false\<close>, nothing, or additional data.\<close>

datatype 's hook_result = Abort | Nothing | Data 's

text \<open>
  The members a template class defines: its name, the recipient in its props, the optional
  \<^verbatim>\<open>beforeSend\<close> hook and the renderers, which are given
  \<^verbatim>\<open>{ ...this.props, ...(bsResponse ?? {}) }\<close>.
\<close>

record ('p, 's, 'c) template =
  templateName :: string
  to :: "'p \<Rightarrow> string"
  beforeSend :: "('p \<Rightarrow> error + 's hook_result) option"
  subject :: "'p \<times> 's option \<Rightarrow> string"
  preview :: "'p \<times> 's option \<Rightarrow> string"
  render :: "'p \<times> 's option \<Rightarrow> 'c"
  renderAsText :: "'p \<times> 's option \<Rightarrow> string"
  headCSS :: "('p \<times> 's option \<Rightarrow> string option) option"

record 'c mail =
  mail_to :: string
  mail_subject :: string
  mail_previewText :: string
  mail_component :: 'c
  mail_text :: string
  mail_headCSS :: "string option"

text \<open>
  The services \<^verbatim>\<open>send\<close> calls, each with the exception it throws, if any:
  \<^verbatim>\<open>mailer.sendMail\<close> and \<^verbatim>\<open>Notification.update({ emailedAt }, { where: { id } })\<close>; \<open>now\<close> is
  \<^verbatim>\<open>new Date()\<close>.
\<close>

record 'c services =
  sendMail :: "'c mail \<Rightarrow> error option"
  Notification_update :: "string \<Rightarrow> nat \<Rightarrow> error option"
  now :: nat

text \<open>
  What \<^verbatim>\<open>send\<close> leaves behind: the counters incremented through \<^verbatim>\<open>Metrics.increment\<close>, the
  log, the mails delivered and the \<^verbatim>\<open>emailedAt\<close> column of the notifications.
\<close>

datatype mail_log = MailInfo string string | MailError string error "NotificationMetadata option"

record 'c outcome =
  metrics :: "(string \<times> string) list"
  mail_log :: "mail_log list"
  delivered :: "'c mail list"
  emailedAt :: "string \<rightharpoonup> nat"

text \<open>
  The second half of \<^verbatim>\<open>send\<close>, after the mail has been delivered:
  \<^verbatim>\<open>if (this.metadata?.notificationId) { try { await Notification.update(...) } catch (err) {
  Logger.error(`Failed to update notification`, err, this.metadata) } }\<close>. A string is truthy
  when it is not empty.
\<close>

definition stamp_notification ::
  "'c services \<Rightarrow> NotificationMetadata option \<Rightarrow> 'c outcome \<Rightarrow> (error + unit) \<times> 'c outcome" where
  "stamp_notification S metadata w =
     (case Option.bind metadata notificationId of
        None \<Rightarrow> (Inr (), w)
      | Some ident \<Rightarrow>
          if ident = [] then (Inr (), w)
          else (case Notification_update S ident (now S) of
                  None \<Rightarrow> (Inr (), w\<lparr> emailedAt := (emailedAt w)(ident \<mapsto> now S) \<rparr>)
                | Some err \<Rightarrow>
                    (Inr (), w\<lparr> mail_log := mail_log w
                                   @ [MailError ''Failed to update notification'' err metadata] \<rparr>)))"

text \<open>
  The argument of \<^verbatim>\<open>mailer.sendMail\<close>, built from
  \<^verbatim>\<open>const data = { ...this.props, ...(bsResponse ?? ({} as S)) }\<close>.
\<close>

definition message_of :: "('p, 's, 'c) template \<Rightarrow> 'p \<Rightarrow> 's hook_result \<Rightarrow> 'c mail" where
  "message_of T props bsResponse =
     (let data = (props, case bsResponse of Data d \<Rightarrow> Some d | _ \<Rightarrow> None)
      in \<lparr> mail_to = to T props,
           mail_subject = subject T data,
           mail_previewText = preview T data,
           mail_component = render T data,
           mail_text = renderAsText T data,
           mail_headCSS = (case headCSS T of None \<Rightarrow> None | Some css \<Rightarrow> css data) \<rparr>)"

text \<open>\<^verbatim>\<open>const bsResponse = await this.beforeSend?.(this.props)\<close>\<close>

definition call_beforeSend :: "('p, 's, 'c) template \<Rightarrow> 'p \<Rightarrow> error + 's hook_result" where
  "call_beforeSend T props = (case beforeSend T of None \<Rightarrow> Inr Nothing | Some hook \<Rightarrow> hook props)"

text \<open>\<^verbatim>\<open>public async send()\<close>\<close>

definition send ::
  "('p, 's, 'c) template \<Rightarrow> 'c services \<Rightarrow> 'p \<Rightarrow> NotificationMetadata option \<Rightarrow> 'c outcome \<Rightarrow> (error + unit) \<times> 'c outcome" where
  "send T S props metadata w =
     (case call_beforeSend T props of
        Inl err \<Rightarrow> (Inl err, w)
      | Inr Abort \<Rightarrow>
          (Inr (), w\<lparr> mail_log := mail_log w @ [MailInfo ''email''
                        (''Email '' @ templateName T @ '' not sent due to beforeSend hook'')] \<rparr>)
      | Inr bsResponse \<Rightarrow>
          (case sendMail S (message_of T props bsResponse) of
             Some err \<Rightarrow>
               (Inl err, w\<lparr> metrics := metrics w @ [(''email.sending_failed'', templateName T)] \<rparr>)
           | None \<Rightarrow>
               stamp_notification S metadata
                 (w\<lparr> delivered := delivered w @ [message_of T props bsResponse],
                     metrics := metrics w @ [(''email.sent'', templateName T)] \<rparr>)))"

section \<open>Automatic subscriptions of collaborators\<close>

text \<open>
  The source of \<^verbatim>\<open>NotificationsProcessor\<close> is not among the files, only its tests are; the
  side effect that subscribes collaborators is modelled from the specification.
\<close>

text \<open>
  Modelled from the spec: \<^verbatim>\<open>NotificationsProcessor\<close> and the Subscription model are missing.
  The two event kinds that trigger the fanout; subscriptions are for the update event.
\<close>

datatype event_kind = documents_update | documents_publish

text \<open>
  Modelled from the spec: the Subscription model is missing. "(userId, documentId, event-kind)
  triple with an enabled flag; soft-deletable."
\<close>

record subscription =
  sub_userId :: string
  sub_documentId :: string
  sub_event :: event_kind
  sub_enabled :: bool
  sub_deleted :: bool

text \<open>
  Modelled from the spec: the Event model is missing. The event \<^verbatim>\<open>subscriptions.create\<close>
  "emitted per creation", with the fields the tests read.
\<close>

record subscription_event =
  event_name :: string
  event_userId :: string
  event_documentId :: string

text \<open>
  Modelled from the spec: \<^verbatim>\<open>NotificationsProcessor\<close> is missing. "A collaborator who does not
  already hold an enabled or soft-deleted Subscription for the update event."
\<close>

definition holds_subscription :: "subscription list \<Rightarrow> string \<Rightarrow> string \<Rightarrow> bool" where
  "holds_subscription subs u d =
     list_ex (\<lambda>sub. sub_userId sub = u \<and> sub_documentId sub = d \<and> sub_event sub = documents_update
                    \<and> (sub_enabled sub \<or> sub_deleted sub)) subs"

text \<open>
  Modelled from the spec: \<^verbatim>\<open>NotificationsProcessor\<close> is missing. "A previously-soft-deleted
  subscription for a given (user, document, event)."
\<close>

definition soft_deleted :: "subscription list \<Rightarrow> string \<Rightarrow> string \<Rightarrow> event_kind \<Rightarrow> bool" where
  "soft_deleted subs u d k =
     list_ex (\<lambda>sub. sub_userId sub = u \<and> sub_documentId sub = d \<and> sub_event sub = k
                    \<and> sub_deleted sub) subs"

text \<open>
  Modelled from the spec: \<^verbatim>\<open>NotificationsProcessor\<close> is missing. The subscription that is
  "created automatically": enabled, not deleted, for the update event.
\<close>

definition new_subscription :: "string \<Rightarrow> string \<Rightarrow> subscription" where
  "new_subscription d u =
     \<lparr> sub_userId = u, sub_documentId = d, sub_event = documents_update,
       sub_enabled = True, sub_deleted = False \<rparr>"

text \<open>
  Modelled from the spec: \<^verbatim>\<open>NotificationsProcessor\<close> is missing. The
  "subscription-created event" of one creation.
\<close>

definition created_event :: "string \<Rightarrow> string \<Rightarrow> subscription_event" where
  "created_event d u =
     \<lparr> event_name = ''subscriptions.create'', event_userId = u, event_documentId = d \<rparr>"

text \<open>
  Modelled from the spec: \<^verbatim>\<open>NotificationsProcessor\<close> is missing. "For every collaborator on
  the document who does not already hold an enabled or soft-deleted Subscription for the
  update event, create one automatically (in collaborator order) and emit a
  subscription-created event per creation", with existence checked in the store as it stands
  when the collaborator's turn comes.
\<close>

fun subscribe_collaborators ::
  "string \<Rightarrow> string list \<Rightarrow> subscription list \<times> subscription_event list
     \<Rightarrow> subscription list \<times> subscription_event list" where
  "subscribe_collaborators d [] (subs, events) = (subs, events)"
| "subscribe_collaborators d (u # collaborators) (subs, events) =
     (if holds_subscription subs u d
      then subscribe_collaborators d collaborators (subs, events)
      else subscribe_collaborators d collaborators
             (subs @ [new_subscription d u], events @ [created_event d u]))"

text \<open>The members of a list in the order of their first occurrence.\<close>

function firsts :: "'a list \<Rightarrow> 'a list" where
  "firsts [] = []"
| "firsts (x # xs) = x # firsts (filter (\<lambda>y. y \<noteq> x) xs)"
  by pat_completeness auto
termination
  by (relation "measure length") (auto simp: less_Suc_eq_le)

text \<open>
  The state of the repository's test "should not create subscriptions if previously
  unsubscribed": three collaborators, the third of whom subscribed and then destroyed the
  subscription.
\<close>

definition unsubscribed :: "subscription list" where
  "unsubscribed =
     [\<lparr> sub_userId = ''collaborator2'', sub_documentId = ''document'', sub_event = documents_update,
        sub_enabled = True, sub_deleted = True \<rparr>]"

section \<open>The loop as one pass over the NodeList\<close>

text \<open>
  For the proofs the loop is also written as a function that goes through the static
  NodeList once and produces the final child list, carrying the two flags and the element
  that the live list holds just before the current node: the last node that was kept.
  \<open>loop_walk\<close> below proves that the loop on the live list computes the same children.
\<close>

fun next_of :: "(nat \<times> element) list \<Rightarrow> element option" where
  "next_of [] = None"
| "next_of ((j, n) # rest) = Some n"

fun walk :: "bool \<Rightarrow> bool \<Rightarrow> element option \<Rightarrow> (nat \<times> element) list \<Rightarrow> dom_child list" where
  "walk pr pc prev [] = []"
| "walk pr pc prev ((i, c) # rest) =
     (if containsDiffElement (Some c) then
        (if pr \<and> pc then [BreakClone] else []) @ Child i c # walk False True (Some c) rest
      else if nodeName c = ''P'' \<and> textContent c \<noteq> [] \<and>
              map_option nodeName (next_of rest) = Some ''P'' \<and>
              containsDiffElement (next_of rest) then
        (if pc then [BreakClone] else []) @ Child i c # walk False pc (Some c) rest
      else if nodeName c = ''P'' \<and> textContent c \<noteq> [] \<and>
              map_option nodeName prev = Some ''P'' \<and> containsDiffElement prev then
        Child i c # walk False pc (Some c) rest
      else walk True pc prev rest)"

definition last_element :: "dom_child list \<Rightarrow> element option" where
  "last_element pre = (if pre = [] then None else Some (element_of (last pre)))"

definition children_of :: "(nat \<times> element) list \<Rightarrow> dom_child list" where
  "children_of cs = map (\<lambda>(i, e). Child i e) cs"

definition fresh :: "nat \<Rightarrow> dom_child list \<Rightarrow> bool" where
  "fresh i cs = list_all (\<lambda>c. \<not> is_child i c) cs"

text \<open>Two break markers next to each other, and a break marker in first place.\<close>

fun consecutive_breaks :: "dom_child list \<Rightarrow> bool" where
  "consecutive_breaks (BreakClone # BreakClone # cs) = True"
| "consecutive_breaks (c # cs) = consecutive_breaks cs"
| "consecutive_breaks [] = False"

fun starts_with_break :: "dom_child list \<Rightarrow> bool" where
  "starts_with_break (BreakClone # cs) = True"
| "starts_with_break cs = False"

section \<open>Blocks of rendered diffs\<close>

text \<open>
  Top-level blocks as jsdom reports them for diffs of small documents: an unchanged
  paragraph, an empty paragraph, a paragraph with inserted words, a list with an inserted
  item, an unchanged list and an unchanged last paragraph. node-htmldiff marks what it inserts and deletes with
  \<^verbatim>\<open>ins\<close> and \<^verbatim>\<open>del\<close> elements that carry the attribute \<^verbatim>\<open>data-operation-index\<close>.
\<close>

definition p_intro :: element where
  \<open>p_intro = \<lparr> nodeName = ''P'', textContent = ''intro'', innerHTML = ''intro'',
                outerHTML = ''<p>intro</p>'' \<rparr>\<close>

definition p_empty :: element where
  \<open>p_empty = \<lparr> nodeName = ''P'', textContent = [], innerHTML = [], outerHTML = ''<p></p>'' \<rparr>\<close>

definition p_changed :: element where
  \<open>p_changed = \<lparr> nodeName = ''P'', textContent = ''first changed'',
       innerHTML = ''first<ins data-operation-index="0"> changed</ins>'',
       outerHTML = ''<p>first<ins data-operation-index="0"> changed</ins></p>'' \<rparr>\<close>

definition ul_changed :: element where
  \<open>ul_changed = \<lparr> nodeName = ''UL'', textContent = ''onetwo'',
       innerHTML = ''<li><p>one</p></li><li><p><ins data-operation-index="0">two</ins></p></li>'',
       outerHTML = ''<ul><li><p>one</p></li><li><p><ins data-operation-index="0">two</ins></p></li></ul>'' \<rparr>\<close>

definition ul_same :: element where
  \<open>ul_same = \<lparr> nodeName = ''UL'', textContent = ''item'', innerHTML = ''<li><p>item</p></li>'',
                outerHTML = ''<ul><li><p>item</p></li></ul>'' \<rparr>\<close>

definition p_last :: element where
  \<open>p_last = \<lparr> nodeName = ''P'', textContent = ''last'', innerHTML = ''last'',
               outerHTML = ''<p>last</p>'' \<rparr>\<close>

text \<open>
  The blocks of the diff in the repository's test of \<^verbatim>\<open>toEmailDiff\<close>, reduced to their node
  names, texts and diff markers: the test paragraph, the added paragraph, the list that
  lost an item, the deleted info block, the new paragraph in its place, the placeholder,
  the highlight, the changed checklist and three equal paragraphs.
\<close>

definition plain_paragraph :: "string \<Rightarrow> element" where
  \<open>plain_paragraph t = \<lparr> nodeName = ''P'', textContent = t, innerHTML = t,
                    outerHTML = ''<p>'' @ t @ ''</p>'' \<rparr>\<close>

definition inserted :: "string \<Rightarrow> string" where
  \<open>inserted t = ''<ins data-operation-index="0">'' @ t @ ''</ins>''\<close>

definition deleted :: "string \<Rightarrow> string" where
  \<open>deleted t = ''<del data-operation-index="0">'' @ t @ ''</del>''\<close>

definition test_added :: element where
  \<open>test_added =
     \<lparr> nodeName = ''P'', textContent = ''A new paragraph'', innerHTML = inserted ''A new paragraph'',
       outerHTML = ''<p>'' @ inserted ''A new paragraph'' @ ''</p>'' \<rparr>\<close>

definition test_list :: element where
  \<open>test_list =
     \<lparr> nodeName = ''UL'', textContent = ''list item 1list item 2'',
       innerHTML = ''<li>list item 1</li><li>'' @ deleted ''list item 2'' @ ''</li>'',
       outerHTML = ''<ul><li>list item 1</li><li>'' @ deleted ''list item 2'' @ ''</li></ul>'' \<rparr>\<close>

definition test_info :: element where
  \<open>test_info =
     \<lparr> nodeName = ''DIV'', textContent = ''Content in an info block'',
       innerHTML = deleted ''Content in an info block'',
       outerHTML = ''<div class="notice-block info">'' @ deleted ''Content in an info block''
                   @ ''</div>'' \<rparr>\<close>

definition test_new :: element where
  \<open>test_new =
     \<lparr> nodeName = ''P'', textContent = ''This is a new paragraph.'',
       innerHTML = inserted ''This is a new paragraph.'',
       outerHTML = ''<p>'' @ inserted ''This is a new paragraph.'' @ ''</p>'' \<rparr>\<close>

definition test_checklist :: element where
  \<open>test_checklist =
     \<lparr> nodeName = ''UL'', textContent = ''checklist item 1checklist item 5'',
       innerHTML = ''<li>checklist item 1</li><li>'' @ inserted ''checklist item 5'' @ ''</li>'',
       outerHTML = ''<ul class="checkbox_list"><li>checklist item 1</li><li>''
                   @ inserted ''checklist item 5'' @ ''</li></ul>'' \<rparr>\<close>

definition test_blocks :: "element list" where
  "test_blocks =
     [plain_paragraph ''This is a test paragraph'', test_added, test_list, test_info, test_new,
      plain_paragraph ''This is a placeholder'', plain_paragraph ''this is a highlight'',
      test_checklist, plain_paragraph ''same on both sides'', plain_paragraph ''same on both sides'',
      plain_paragraph ''same on both sides'']"

text \<open>\<^verbatim>\<open>body.innerHTML\<close> between the markup before and after the children of \<^verbatim>\<open>#content\<close>.\<close>

definition serialized :: "dom_child list \<Rightarrow> string" where
  "serialized contents = concat (map (\<lambda>c. outerHTML (element_of c)) contents)"

section \<open>The result of \<^verbatim>\<open>diff\<close> in the words of the specification\<close>

text \<open>
  A second definition, for comparison with \<open>diff\<close>: it follows the words of the
  specification, "re-embed the diffed subtree into the after rendering's shell", and differs
  from the code in the page that receives the diffed content.
\<close>

definition diff_into_after_shell ::
  "('y, 'f, 'j, 'n, 'd) libraries \<Rightarrow> document \<Rightarrow> document \<Rightarrow> HTMLOptions option \<Rightarrow> error + string" where
  "diff_into_after_shell L b after options =
     (case toHTML L b options of
        Inl err \<Rightarrow> Inl err
      | Inr beforeHTML \<Rightarrow>
          (case toHTML L after options of
             Inl err \<Rightarrow> Inl err
           | Inr afterHTML \<Rightarrow>
               (let beforeDOM = JSDOM L beforeHTML;
                    afterDOM = JSDOM L afterHTML
                in case article_innerHTML L beforeDOM of
                     None \<Rightarrow> Inl (TypeError ''Cannot read properties of undefined (reading 'innerHTML')'')
                   | Some beforeArticle \<Rightarrow>
                       (case article_innerHTML L afterDOM of
                          None \<Rightarrow> Inl (TypeError ''Cannot read properties of undefined (reading 'innerHTML')'')
                        | Some afterArticle \<Rightarrow>
                            Inr (serialize L (set_article_innerHTML L afterDOM
                                   (htmldiff L beforeArticle afterArticle)))))))"

section \<open>The accumulated editors\<close>

text \<open>
  \<^verbatim>\<open>onChange\<close> is the only writer of \<^verbatim>\<open>documentCollaboratorIds\<close> besides the \<^verbatim>\<open>delete\<close> of
  \<^verbatim>\<open>onStoreDocument\<close>, and it never stores an empty set.
\<close>

definition editors_recorded :: "'y server \<Rightarrow> bool" where
  "editors_recorded s = (\<forall>name. documentCollaboratorIds s name \<noteq> Some [])"

text \<open>The editors accumulated for a document: none when the map has no entry.\<close>

definition accumulated :: "'y server \<Rightarrow> string \<Rightarrow> string option list" where
  "accumulated s documentName =
     (case documentCollaboratorIds s documentName of None \<Rightarrow> [] | Some ids \<Rightarrow> ids)"

section \<open>Stand-ins for the libraries\<close>

text \<open>
  The theorems below hold for all libraries. To run the functions on concrete documents,
  small stand-ins are used: a \<^verbatim>\<open>Y.Doc\<close> is the sequence of bytes applied to it, an update
  without a single byte cannot be decoded (yjs throws "Unexpected end of array" when the
  bytes end before the update does), the parser takes the text as one paragraph, a page is its head and the content of its article, the
  style sheet and the \<^verbatim>\<open>dir\<close> attributes follow the direction of the title, as the \<^verbatim>\<open>rtl\<close>
  property given to \<^verbatim>\<open>EditorContainer\<close> has them do, and the diff marks the old content as
  deleted and the new content as inserted when they differ.
\<close>

text \<open>The first occurrence of a pattern: the text before it and the text after it.\<close>

fun split_once :: "string \<Rightarrow> string \<Rightarrow> (string \<times> string) option" where
  "split_once p [] = (if p = [] then Some ([], []) else None)"
| "split_once p (c # cs) =
     (if starts_with p (c # cs) then Some ([], drop (length p) (c # cs))
      else (case split_once p cs of
              None \<Rightarrow> None
            | Some (u, v) \<Rightarrow> Some (c # u, v)))"

definition between :: "string \<Rightarrow> string \<Rightarrow> string \<Rightarrow> string option" where
  "between a b s =
     (case split_once a s of
        None \<Rightarrow> None
      | Some (u, v) \<Rightarrow> (case split_once b v of None \<Rightarrow> None | Some (x, y) \<Rightarrow> Some x))"

record demo_dom =
  dd_head :: string
  dd_article :: "string option"

definition demo_JSDOM :: "string \<Rightarrow> demo_dom" where
  \<open>demo_JSDOM s =
     \<lparr> dd_head = (case between ''<head>'' ''</head>'' s of
                    Some h \<Rightarrow> h
                  | None \<Rightarrow> (case between ''<!DOCTYPE html>'' ''<article>'' s of
                               Some h \<Rightarrow> h
                             | None \<Rightarrow> [])),
       dd_article = between ''<article>'' ''</article>'' s \<rparr>\<close>

definition demo_serialize :: "demo_dom \<Rightarrow> string" where
  \<open>demo_serialize d =
     ''<!DOCTYPE html><html><head>'' @ dd_head d @ ''</head><body>''
       @ (case dd_article d of None \<Rightarrow> [] | Some a \<Rightarrow> ''<article>'' @ a @ ''</article>'')
       @ ''</body></html>''\<close>

definition demo_serializeFragment :: "string \<Rightarrow> demo_dom \<Rightarrow> demo_dom" where
  \<open>demo_serializeFragment node d =
     (case dd_article d of
        None \<Rightarrow> d
      | Some a \<Rightarrow>
          (case split_once ''class="ProseMirror">'' a of
             None \<Rightarrow> d
           | Some (u, v) \<Rightarrow>
               d\<lparr> dd_article := Some (u @ ''class="ProseMirror">'' @ ''<p>'' @ node @ ''</p>'' @ v) \<rparr>))\<close>

definition direction :: "bool \<Rightarrow> string" where
  "direction r = (if r then ''rtl'' else ''ltr'')"

definition demo_renderToString :: "page_props \<Rightarrow> error + string" where
  \<open>demo_renderToString props =
     Inr (''<article>''
          @ (if with_title props
             then ''<h1 dir="'' @ direction (rtl props) @ ''">'' @ title props @ ''</h1>''
             else [])
          @ ''<div dir="'' @ direction (rtl props) @ ''"><div id="content" class="ProseMirror"></div></div>''
          @ ''</article>'')\<close>

definition demo_getStyleTags :: "page_props \<Rightarrow> error + string" where
  \<open>demo_getStyleTags props =
     Inr (''<style>.ProseMirror{direction:'' @ direction (rtl props) @ ''}</style>'')\<close>

definition demo_htmldiff :: "string \<Rightarrow> string \<Rightarrow> string" where
  \<open>demo_htmldiff old new =
     (if old = new then new
      else ''<del data-operation-index="0">'' @ old @ ''</del>''
           @ ''<ins data-operation-index="0">'' @ new @ ''</ins>'')\<close>

definition demo_isRTL :: "string \<Rightarrow> bool" where
  "demo_isRTL t = (case t of [] \<Rightarrow> False | c # _ \<Rightarrow> c \<in> set [CHR 0xD6, CHR 0xD7, CHR 0xD8, CHR 0xD9, CHR 0xDA, CHR 0xDB])"

definition demo :: "(bytes, bytes, bytes, string, demo_dom) libraries" where
  "demo =
     \<lparr> Y_Doc = [],
       Y_applyUpdate = (\<lambda>ydoc update. if update = [] then Inl (Error ''Unexpected end of array'')
                                         else Inr (ydoc @ update)),
       Y_encodeStateAsUpdate = (\<lambda>ydoc. Inr ydoc),
       ydoc_get = (\<lambda>ydoc name. Inr ydoc),
       type_doc = Some,
       updateYFragment = (\<lambda>ydoc type node. Inr (ydoc @ map (\<lambda>c. of_nat (of_char c)) node)),
       yDocToProsemirrorJSON = (\<lambda>ydoc name. Inr ydoc),
       Node_fromJSON = (\<lambda>json. Inr (map (\<lambda>b. char_of (unat b)) json)),
       parser_parse = Inr,
       isRTL = demo_isRTL,
       renderToString = demo_renderToString,
       getStyleTags = demo_getStyleTags,
       JSDOM = demo_JSDOM,
       serializeFragment = demo_serializeFragment,
       serialize = demo_serialize,
       article_innerHTML = dd_article,
       set_article_innerHTML = (\<lambda>d html. case dd_article d of None \<Rightarrow> d | Some a \<Rightarrow> d\<lparr> dd_article := Some html \<rparr>),
       htmldiff = demo_htmldiff,
       content_of = (\<lambda>d. \<lparr> head_innerHTML = dd_head d,
                             body_prefix = (case dd_article d of None \<Rightarrow> [] | Some a \<Rightarrow> ''<article>'' @ a @ ''</article>''),
                             children = [], body_suffix = [] \<rparr>) \<rparr>"

definition shalom :: string where
  "shalom = [CHR 0xD7, CHR 0xA9, CHR 0xD7, CHR 0x9C, CHR 0xD7, CHR 0x95, CHR 0xD7, CHR 0x9D]"

definition revision_hello :: document where
  "revision_hello = \<lparr> doc_id = ''r1'', doc_title = ''Hello'', doc_text = ''Body'', doc_state = None, changed = {} \<rparr>"

definition revision_shalom :: document where
  "revision_shalom = \<lparr> doc_id = ''r2'', doc_title = shalom, doc_text = ''Body'', doc_state = None, changed = {} \<rparr>"

definition revision_shalom_later :: document where
  "revision_shalom_later = revision_shalom\<lparr> doc_id := ''r3'' \<rparr>"

definition bytes_of :: "string \<Rightarrow> bytes" where
  "bytes_of text = map (\<lambda>c. of_nat (of_char c)) text"

definition demo_collaboration :: "bytes collaboration" where
  "demo_collaboration =
     \<lparr> isEmpty = (\<lambda>ydoc fieldName. ydoc = []),
       markdownToYDoc = (\<lambda>text fieldName. Inr (bytes_of text)),
       documentCollaborativeUpdater =
         (\<lambda>args. if updater_userId args = None then Some (Error ''userId is required'') else None) \<rparr>"

definition empty_server :: "bytes server" where
  "empty_server =
     \<lparr> database = [], queries = [], log = [], documentCollaboratorIds = Map.empty,
       updater_calls = [] \<rparr>"

definition reminder :: "(string, unit, string) template" where
  "reminder =
     \<lparr> templateName = ''InviteReminderEmail'',
       to = (\<lambda>props. props),
       beforeSend = None,
       subject = (\<lambda>data. ''Reminder''),
       preview = (\<lambda>data. ''Outline is a place for your team to build and share knowledge.''),
       render = (\<lambda>data. ''<p>Join now</p>''),
       renderAsText = (\<lambda>data. ''Join now''),
       headCSS = None \<rparr>"

definition mailer_down :: "string services" where
  "mailer_down =
     \<lparr> sendMail = (\<lambda>message. Some (Error ''connect ECONNREFUSED'')),
       Notification_update = (\<lambda>ident date. None),
       now = 1700000000 \<rparr>"

definition database_down :: "string services" where
  "database_down =
     \<lparr> sendMail = (\<lambda>message. None),
       Notification_update = (\<lambda>ident date. Some (Error ''connection terminated'')),
       now = 1700000000 \<rparr>"

definition nothing_sent :: "string outcome" where
  "nothing_sent = \<lparr> metrics = [], mail_log = [], delivered = [], emailedAt = Map.empty \<rparr>"

definition hello_article :: string where
  \<open>hello_article =
     ''<h1 dir="ltr">Hello</h1>''
     @ ''<div dir="ltr"><div id="content" class="ProseMirror"><p>Body</p></div></div>''\<close>

definition shalom_article :: string where
  \<open>shalom_article =
     ''<h1 dir="rtl">'' @ shalom @ ''</h1>''
     @ ''<div dir="rtl"><div id="content" class="ProseMirror"><p>Body</p></div></div>''\<close>

definition stored_text :: document where
  "stored_text =
     \<lparr> doc_id = ''abc'', doc_title = ''Hello'', doc_text = ''Body'', doc_state = None, changed = {} \<rparr>"

definition stored_state :: document where
  "stored_state =
     \<lparr> doc_id = ''abc'', doc_title = ''Hello'', doc_text = ''Body'', doc_state = Some [66, 111],
       changed = {} \<rparr>"

text \<open>A row whose state column holds no byte: \<^verbatim>\<open>document.state\<close> is an empty Buffer, which is
  truthy.\<close>

definition stored_empty :: document where
  "stored_empty =
     \<lparr> doc_id = ''abc'', doc_title = ''Hello'', doc_text = ''Body'', doc_state = Some [], changed = {} \<rparr>"






definition hello_page :: string where
  \<open>hello_page =
     ''<!DOCTYPE html><html><head><style>.ProseMirror{direction:ltr}</style></head><body><article>''
     @ hello_article @ ''</article></body></html>''\<close>

definition shalom_page :: string where
  \<open>shalom_page =
     ''<!DOCTYPE html><html><head><style>.ProseMirror{direction:rtl}</style></head><body><article>''
     @ shalom_article @ ''</article></body></html>''\<close>

definition editor :: hocuspocus_context where
  "editor = \<lparr> context_user = Some \<lparr> user_id = ''u1'', user_name = ''Ada'' \<rparr> \<rparr>"

definition reviewer :: hocuspocus_context where
  "reviewer = \<lparr> context_user = Some \<lparr> user_id = ''u2'', user_name = ''Grace'' \<rparr> \<rparr>"

definition anonymous :: hocuspocus_context where
  "anonymous = \<lparr> context_user = None \<rparr>"

definition two_editors :: "bytes server" where
  "two_editors = onChange (onChange (onChange empty_server editor ''document.abc'') reviewer ''document.abc'')
                   editor ''document.abc''"

section \<open>The loop on the live list and the one-pass reading agree\<close>

lemma fresh_simps [simp]:
  "fresh i []" "fresh i (c # cs) = (\<not> is_child i c \<and> fresh i cs)"
  "fresh i (xs @ ys) = (fresh i xs \<and> fresh i ys)"
  by (auto simp: fresh_def)

lemma fresh_children_of: "fresh i (children_of cs) = (i \<notin> fst ` set cs)"
  by (induction cs) (auto simp: children_of_def)

lemma takeWhile_fresh:
  "fresh i pre \<Longrightarrow> takeWhile (\<lambda>c. \<not> is_child i c) (pre @ Child i e # post) = pre"
  by (induction pre) auto

lemma dropWhile_fresh:
  "fresh i pre \<Longrightarrow> dropWhile (\<lambda>c. \<not> is_child i c) (pre @ Child i e # post) = Child i e # post"
  by (induction pre) auto

lemma next_fresh:
  "fresh i pre \<Longrightarrow> nextElementSibling (pre @ Child i e # children_of rest) i = next_of rest"
  by (cases rest) (auto simp: nextElementSibling_def dropWhile_fresh children_of_def)

lemma prev_fresh:
  assumes "fresh i pre"
  shows "previousElementSibling (pre @ Child i e # post) i = last_element pre"
proof -
  have "\<exists>c \<in> set (pre @ Child i e # post). is_child i c" by auto
  then show ?thesis
    unfolding previousElementSibling_def takeWhile_fresh[OF assms] last_element_def
    by (cases pre rule: rev_cases) auto
qed

lemma insert_fresh:
  "fresh i pre \<Longrightarrow> insertBefore_br (pre @ Child i e # post) i = pre @ BreakClone # Child i e # post"
  by (auto simp: insertBefore_br_def takeWhile_fresh dropWhile_fresh)

lemma remove_fresh:
  "fresh i pre \<Longrightarrow> fresh i post \<Longrightarrow> remove_child (pre @ Child i e # post) i = pre @ post"
  by (auto simp: remove_child_def fresh_def filter_id_conv list_all_iff)

lemma loop_walk:
  "distinct (map fst cs) \<Longrightarrow> \<forall>i \<in> fst ` set cs. fresh i pre \<Longrightarrow>
   live (foldl iteration \<lparr> live = pre @ children_of cs, previousNodeRemoved = pr, previousDiffClipped = pc \<rparr> cs)
     = pre @ walk pr pc (last_element pre) cs"
proof (induction cs arbitrary: pre pr pc)
  case Nil
  then show ?case by (simp add: children_of_def)
next
  case (Cons a cs)
  obtain i c where a: "a = (i, c)" by (cases a)
  have fi: "fresh i pre" using Cons.prems a by simp
  have fr: "fresh i (children_of cs)" using Cons.prems a by (simp add: fresh_children_of)
  have d: "distinct (map fst cs)" using Cons.prems by simp
  have L: "pre @ children_of (a # cs) = pre @ Child i c # children_of cs"
    by (simp add: a children_of_def)
  have ext: "\<forall>j \<in> fst ` set cs. fresh j (pre @ xs @ [Child i c])" if "\<forall>x\<in>set xs. x = BreakClone" for xs
    using Cons.prems a that by (auto simp: fresh_def list_all_iff)
  have keep: "\<forall>j \<in> fst ` set cs. fresh j pre" using Cons.prems by simp
  have IH1: "live (foldl iteration \<lparr> live = (pre @ xs @ [Child i c]) @ children_of cs, previousNodeRemoved = pr', previousDiffClipped = pc' \<rparr> cs)
     = (pre @ xs @ [Child i c]) @ walk pr' pc' (Some c) cs" if "\<forall>x\<in>set xs. x = BreakClone" for xs pr' pc'
    using Cons.IH[OF d ext[OF that], of pr' pc'] by (simp add: last_element_def)
  show ?case
    unfolding foldl_Cons L
    apply (simp add: iteration_def a next_fresh[OF fi] prev_fresh[OF fi] insert_fresh[OF fi] remove_fresh[OF fi fr])
    using IH1[of "[]"] IH1[of "[BreakClone]"] Cons.IH[OF d keep]
    apply (auto)
    done
qed

lemma compacted_walk: "compacted blocks = walk False False None (querySelectorAll_content blocks)"
proof -
  have d: "distinct (map fst (enumerate 0 blocks))" by simp
  show ?thesis
    unfolding compacted_def initial_state_def querySelectorAll_content_def
    using loop_walk[OF d, of "[]" False False]
    by (simp add: children_of_def last_element_def)
qed

lemma walk_members:
  "Child i e \<in> set (walk pr pc prev cs) \<Longrightarrow>
     (i, e) \<in> set cs \<and> (containsDiffElement (Some e) \<or> nodeName e = ''P'' \<and> textContent e \<noteq> [])"
  by (induction pr pc prev cs rule: walk.induct) (auto split: if_splits)

lemma walk_no_consecutive_breaks: "\<not> consecutive_breaks (walk pr pc prev cs)"
  by (induction pr pc prev cs rule: walk.induct) auto

lemma walk_no_leading_break: "\<not> starts_with_break (walk pr False prev cs)"
  by (induction pr "False" prev cs rule: walk.induct) auto

lemma walk_leading:
  assumes "\<not> containsDiffElement (Some c)" "nodeName c = ''P''" "textContent c \<noteq> []"
    "nodeName d = ''P''" "containsDiffElement (Some d)"
  shows "Child i c \<in> set (walk pr pc prev (xs @ (i, c) # (j, d) # rest))"
  using assms by (induction xs arbitrary: pr pc prev) auto

lemma walk_trailing:
  assumes "\<not> containsDiffElement (Some c)" "nodeName c = ''P''" "textContent c \<noteq> []"
    "nodeName d = ''P''" "containsDiffElement (Some d)"
  shows "Child i c \<in> set (walk pr pc prev (xs @ (j, d) # (i, c) # rest))"
  using assms by (induction xs arbitrary: pr pc prev) auto


lemma walk_one_hop:
  assumes "\<not> containsDiffElement (Some q)" "nodeName q = ''P''" "textContent q \<noteq> []"
    "\<not> containsDiffElement (Some c)"
    "\<not> (map_option nodeName (next_of rest) = Some ''P'' \<and> containsDiffElement (next_of rest))"
    "i \<notin> fst ` set xs" "i \<noteq> k" "i \<notin> fst ` set rest"
  shows "Child i c \<notin> set (walk pr pc prev (xs @ (k, q) # (i, c) # rest))"
  using assms
proof (induction xs arbitrary: pr pc prev)
  case Nil
  have "Child i c \<notin> set (walk pr' pc' prev' rest)" for pr' pc' prev'
    using walk_members[of i c pr' pc' prev' rest] Nil.prems(8) by force
  then show ?case using Nil.prems by (auto simp: containsDiffElement_def)
next
  case (Cons x xs)
  obtain j e where x: "x = (j, e)" by (cases x)
  have "Child i c \<notin> set (walk pr' pc' prev' (xs @ (k, q) # (i, c) # rest))" for pr' pc' prev'
    using Cons by simp
  moreover have "i \<noteq> j" using Cons.prems x by auto
  ultimately show ?case by (simp add: x)
qed

lemma content_append:
  "querySelectorAll_content (pre @ post) = enumerate 0 pre @ enumerate (length pre) post"
  by (simp add: querySelectorAll_content_def enumerate_append_eq)

lemma fst_enumerate: "fst ` set (enumerate n xs) = {n ..< n + length xs}"
proof -
  have "fst ` set (enumerate n xs) = set (map fst (enumerate n xs))"
    by (simp only: set_map)
  also have "\<dots> = {n ..< n + length xs}"
    by (simp only: map_fst_enumerate set_upt)
  finally show ?thesis .
qed

lemma walk_keeps_changed:
  "containsDiffElement (Some c) \<Longrightarrow> Child i c \<in> set (walk pr pc prev (xs @ (i, c) # rest))"
  by (induction xs arbitrary: pr pc prev) auto

lemma compacted_keeps_changed:
  "containsDiffElement (Some c) \<Longrightarrow> Child (length pre) c \<in> set (compacted (pre @ c # post))"
  using walk_keeps_changed[of c "length pre" False False None "enumerate 0 pre"]
  by (simp add: compacted_walk content_append)

lemma walk_step:
  "\<exists>us pr' pc' prev'. walk pr pc prev ((j, e) # ys) = us @ walk pr' pc' prev' ys
      \<and> (pc \<or> containsDiffElement (Some e) \<longrightarrow> pc')"
proof -
  define lead where "lead = (nodeName e = ''P'' \<and> textContent e \<noteq> [] \<and>
      map_option nodeName (next_of ys) = Some ''P'' \<and> containsDiffElement (next_of ys))"
  define trail where "trail = (nodeName e = ''P'' \<and> textContent e \<noteq> [] \<and>
      map_option nodeName prev = Some ''P'' \<and> containsDiffElement prev)"
  have w: "walk pr pc prev ((j, e) # ys) =
     (if containsDiffElement (Some e) then
        (if pr \<and> pc then [BreakClone] else []) @ Child j e # walk False True (Some e) ys
      else if lead then (if pc then [BreakClone] else []) @ Child j e # walk False pc (Some e) ys
      else if trail then Child j e # walk False pc (Some e) ys
      else walk True pc prev ys)"
    by (simp only: walk.simps lead_def trail_def)
  consider (changed) "containsDiffElement (Some e)"
    | (leading) "\<not> containsDiffElement (Some e)" lead
    | (trailing) "\<not> containsDiffElement (Some e)" "\<not> lead" trail
    | (removed) "\<not> containsDiffElement (Some e)" "\<not> lead" "\<not> trail"
    by blast
  then show ?thesis
  proof cases
    case changed
    then show ?thesis
      by (intro exI[of _ "(if pr \<and> pc then [BreakClone] else []) @ [Child j e]"]
            exI[of _ False] exI[of _ True] exI[of _ "Some e"]) (simp add: w del: walk.simps)
  next
    case leading
    then show ?thesis
      by (intro exI[of _ "(if pc then [BreakClone] else []) @ [Child j e]"]
            exI[of _ False] exI[of _ pc] exI[of _ "Some e"]) (simp add: w del: walk.simps)
  next
    case trailing
    then show ?thesis
      by (intro exI[of _ "[Child j e]"] exI[of _ False] exI[of _ pc] exI[of _ "Some e"]) (simp add: w del: walk.simps)
  next
    case removed
    then show ?thesis
      by (intro exI[of _ "[]"] exI[of _ True] exI[of _ pc] exI[of _ prev]) (simp add: w del: walk.simps)
  qed
qed

lemma walk_break_before_changed:
  assumes "pc \<or> (\<exists>(j, e) \<in> set xs. containsDiffElement (Some e))"
    and "\<not> containsDiffElement (Some x)" and "nodeName x \<noteq> ''P''"
    and "containsDiffElement (Some c)"
  shows "\<exists>us vs. walk pr pc prev (xs @ (k, x) # (i, c) # rest) = us @ BreakClone # Child i c # vs"
  using assms
proof (induction xs arbitrary: pr pc prev)
  case Nil
  then show ?case by auto
next
  case (Cons a xs)
  obtain j e where a: "a = (j, e)" by (cases a)
  from walk_step[of pr pc prev j e "xs @ (k, x) # (i, c) # rest"]
  obtain us pr' pc' prev' where
    w: "walk pr pc prev ((j, e) # xs @ (k, x) # (i, c) # rest)
          = us @ walk pr' pc' prev' (xs @ (k, x) # (i, c) # rest)"
    and p: "pc \<or> containsDiffElement (Some e) \<longrightarrow> pc'"
    by blast
  have "pc' \<or> (\<exists>(j, e) \<in> set xs. containsDiffElement (Some e))"
    using Cons.prems(1) a p by auto
  from Cons.IH[OF this Cons.prems(2,3,4), of pr' prev'] obtain us' vs
    where "walk pr' pc' prev' (xs @ (k, x) # (i, c) # rest) = us' @ BreakClone # Child i c # vs"
    by blast
  with w have "walk pr pc prev ((a # xs) @ (k, x) # (i, c) # rest) = (us @ us') @ BreakClone # Child i c # vs"
    by (simp add: a)
  then show ?case by blast
qed

lemma compacted_break_before_changed:
  assumes "\<exists>e \<in> set pre. containsDiffElement (Some e)"
    and "\<not> containsDiffElement (Some x)" and "nodeName x \<noteq> ''P''"
    and "containsDiffElement (Some c)"
  shows "\<exists>us vs. compacted (pre @ x # c # post) = us @ BreakClone # Child (Suc (length pre)) c # vs"
proof -
  from assms(1) obtain e where e: "e \<in> set pre" "containsDiffElement (Some e)"
    by blast
  then obtain n where "n < length pre" "pre ! n = e"
    by (auto simp: in_set_conv_nth)
  then have "(n, e) \<in> set (enumerate 0 pre)"
    by (simp add: in_set_enumerate_eq)
  with e have "False \<or> (\<exists>(j, e) \<in> set (enumerate 0 pre). containsDiffElement (Some e))"
    by auto
  from walk_break_before_changed[OF this assms(2,3,4), of False None "length pre" "Suc (length pre)"]
  show ?thesis
    by (simp add: compacted_walk content_append)
qed

lemma compacted_no_consecutive_breaks: "\<not> consecutive_breaks (compacted blocks)"
  by (simp add: compacted_walk walk_no_consecutive_breaks)

lemma compacted_no_leading_break: "\<not> starts_with_break (compacted blocks)"
  by (simp add: compacted_walk walk_no_leading_break)

section \<open>Which unchanged blocks \<^verbatim>\<open>toEmailDiff\<close> keeps\<close>

text \<open>
  C3, as the code has it. Let \<open>c\<close> be a block without a diff marker. If \<open>c\<close> is a paragraph
  with text and the block right after it is a changed paragraph, \<open>c\<close> is kept (leading
  context); if \<open>c\<close> is a paragraph with text and the block right before it is a changed
  paragraph, \<open>c\<close> is kept (trailing context); if \<open>c\<close> is not a paragraph, or a paragraph
  without text, it is removed wherever it stands; and context does not chain: when the
  block right before \<open>c\<close> is an unchanged paragraph with text, \<open>c\<close> is removed unless the
  block right after \<open>c\<close> is a changed paragraph.
\<close>

theorem context_paragraph_policy:
  assumes "\<not> containsDiffElement (Some c)"
  shows "(nodeName c = ''P'' \<and> textContent c \<noteq> [] \<and> nodeName d = ''P'' \<and> containsDiffElement (Some d)
            \<longrightarrow> Child (length pre) c \<in> set (compacted (pre @ c # d # post)))
       \<and> (nodeName c = ''P'' \<and> textContent c \<noteq> [] \<and> nodeName d = ''P'' \<and> containsDiffElement (Some d)
            \<longrightarrow> Child (Suc (length pre)) c \<in> set (compacted (pre @ d # c # post)))
       \<and> (nodeName c \<noteq> ''P'' \<or> textContent c = []
            \<longrightarrow> Child (length pre) c \<notin> set (compacted (pre @ c # post)))
       \<and> (\<not> containsDiffElement (Some q) \<and> nodeName q = ''P'' \<and> textContent q \<noteq> []
            \<longrightarrow> Child (Suc (length pre)) c \<notin> set (compacted (pre @ [q, c])))
       \<and> (\<not> containsDiffElement (Some q) \<and> nodeName q = ''P'' \<and> textContent q \<noteq> []
           \<and> \<not> (nodeName n = ''P'' \<and> containsDiffElement (Some n))
            \<longrightarrow> Child (Suc (length pre)) c \<notin> set (compacted (pre @ q # c # n # post)))"
proof (intro conjI impI)
  assume "nodeName c = ''P'' \<and> textContent c \<noteq> [] \<and> nodeName d = ''P'' \<and> containsDiffElement (Some d)"
  then show "Child (length pre) c \<in> set (compacted (pre @ c # d # post))"
    using assms walk_leading[of c d "length pre"]
    by (simp add: compacted_walk content_append)
next
  assume "nodeName c = ''P'' \<and> textContent c \<noteq> [] \<and> nodeName d = ''P'' \<and> containsDiffElement (Some d)"
  then show "Child (Suc (length pre)) c \<in> set (compacted (pre @ d # c # post))"
    using assms walk_trailing[of c d "Suc (length pre)"]
    by (simp add: compacted_walk content_append)
next
  assume "nodeName c \<noteq> ''P'' \<or> textContent c = []"
  then show "Child (length pre) c \<notin> set (compacted (pre @ c # post))"
    using assms walk_members[of "length pre" c] by (auto simp: compacted_walk)
next
  assume "\<not> containsDiffElement (Some q) \<and> nodeName q = ''P'' \<and> textContent q \<noteq> []"
  then show "Child (Suc (length pre)) c \<notin> set (compacted (pre @ [q, c]))"
    using assms walk_one_hop[of q c "[]" "Suc (length pre)" "enumerate 0 pre" "length pre"]
    by (simp add: compacted_walk content_append fst_enumerate containsDiffElement_def)
next
  assume "\<not> containsDiffElement (Some q) \<and> nodeName q = ''P'' \<and> textContent q \<noteq> []
           \<and> \<not> (nodeName n = ''P'' \<and> containsDiffElement (Some n))"
  then show "Child (Suc (length pre)) c \<notin> set (compacted (pre @ q # c # n # post))"
    using assms walk_one_hop[of q c "(Suc (Suc (length pre)), n) # enumerate (Suc (Suc (Suc (length pre)))) post" "Suc (length pre)" "enumerate 0 pre" "length pre"]
    by (simp add: compacted_walk content_append fst_enumerate)
qed

text \<open>
  The five parts at \<^verbatim>\<open>[intro, changed]\<close>, \<^verbatim>\<open>[changed, last]\<close>, \<^verbatim>\<open>[changed, list]\<close>,
  \<^verbatim>\<open>[changed, intro, last]\<close> and \<^verbatim>\<open>[changed, intro, last, list]\<close>.
\<close>

theorem context_paragraph_policy_witness:
  "Child 0 p_intro \<in> set (compacted [p_intro, p_changed])
   \<and> Child 1 p_last \<in> set (compacted [p_changed, p_last])
   \<and> Child 1 ul_same \<notin> set (compacted [p_changed, ul_same])
   \<and> Child 2 p_last \<notin> set (compacted [p_changed, p_intro, p_last])
   \<and> Child 2 p_last \<notin> set (compacted [p_changed, p_intro, p_last, ul_same])"
proof -
  have i: "\<not> containsDiffElement (Some p_intro)" "nodeName p_intro = ''P''" "textContent p_intro \<noteq> []"
    by code_simp+
  have l: "\<not> containsDiffElement (Some p_last)" "nodeName p_last = ''P''" "textContent p_last \<noteq> []"
    by code_simp+
  have u: "\<not> containsDiffElement (Some ul_same)" "nodeName ul_same \<noteq> ''P''"
    by code_simp+
  have c: "containsDiffElement (Some p_changed)" "nodeName p_changed = ''P''"
    by code_simp+
  show ?thesis
    using context_paragraph_policy[OF i(1), where d = p_changed and pre = "[]" and post = "[]"]
      context_paragraph_policy[OF l(1), where d = p_changed and pre = "[]" and post = "[]"]
      context_paragraph_policy[OF u(1), where pre = "[p_changed]" and post = "[]"]
      context_paragraph_policy[OF l(1), where pre = "[p_changed]" and q = p_intro and n = ul_same
        and post = "[]"]
      i l u c
    by (simp add: numeral_2_eq_2)
qed

text \<open>
  C3 as stated fails where the changed block is not a paragraph: the unchanged paragraph
  right before a changed list is removed, and so is the unchanged paragraph right after it.
  It also fails for a paragraph without text right before a changed paragraph.
\<close>

theorem leading_context_counterexample:
  "nodeName p_intro = ''P'' \<and> textContent p_intro \<noteq> [] \<and> \<not> containsDiffElement (Some p_intro)
   \<and> nodeName p_last = ''P'' \<and> textContent p_last \<noteq> [] \<and> \<not> containsDiffElement (Some p_last)
   \<and> nodeName p_empty = ''P'' \<and> \<not> containsDiffElement (Some p_empty)
   \<and> containsDiffElement (Some ul_changed) \<and> containsDiffElement (Some p_changed)
   \<and> compacted [p_intro, ul_changed] = [Child 1 ul_changed]
   \<and> compacted [ul_changed, p_last] = [Child 0 ul_changed]
   \<and> compacted [p_empty, p_changed] = [Child 1 p_changed]"
  by code_simp

section \<open>Break markers\<close>

text \<open>
  C4 at a changed paragraph, an unchanged list and an unchanged paragraph: the list is
  removed, and the last paragraph, whose previous sibling in the live list is now the
  changed paragraph, is kept without a break marker between the two.
\<close>

theorem removed_block_without_break:
  "compacted [p_changed, ul_same, p_last] = [Child 0 p_changed, Child 2 p_last]"
  by code_simp

text \<open>What \<^verbatim>\<open>toEmailDiff\<close> returns when there is a document to compare with: the page of the
  diff with the children of \<^verbatim>\<open>#content\<close> compacted by the loop.\<close>

lemma toEmailDiff_compacts:
  assumes "diff L (Some b) after options = Inr html"
  shows "toEmailDiff L (Some b) after options
           = Inr (head_innerHTML (content_of L (JSDOM L html)) @ '' ''
                  @ body_prefix (content_of L (JSDOM L html))
                  @ concat (map (\<lambda>c. outerHTML (element_of c))
                              (compacted (children (content_of L (JSDOM L html)))))
                  @ body_suffix (content_of L (JSDOM L html)))"
  using assms by (simp add: toEmailDiff_def Let_def)

text \<open>So for every pair of documents whose diff has these three blocks, the result shows the
  two paragraphs next to each other.\<close>

lemma toEmailDiff_removed_block_without_break:
  assumes "diff L (Some b) after options = Inr html"
    and "children (content_of L (JSDOM L html)) = [p_changed, ul_same, p_last]"
  shows \<open>toEmailDiff L (Some b) after options
           = Inr (head_innerHTML (content_of L (JSDOM L html)) @ '' ''
                  @ body_prefix (content_of L (JSDOM L html))
                  @ ''<p>first<ins data-operation-index="0"> changed</ins></p><p>last</p>''
                  @ body_suffix (content_of L (JSDOM L html)))\<close>
proof -
  have c: "compacted [p_changed, ul_same, p_last] = [Child 0 p_changed, Child 2 p_last]"
    by code_simp
  show ?thesis
    unfolding toEmailDiff_compacts[OF assms(1)] assms(2) c
    by (simp add: p_changed_def p_last_def)
qed

text \<open>
  The markers the loop does place: never two in a row and never one in first place
  (\<open>compacted_no_consecutive_breaks\<close>, \<open>compacted_no_leading_break\<close>), and one right before a
  changed block that follows a removed block when a changed block was kept earlier
  (\<open>compacted_break_before_changed\<close>).
\<close>

section \<open>The repository's test of \<^verbatim>\<open>toEmailDiff\<close>\<close>

text \<open>
  On the blocks of the test the loop keeps the test paragraph as context of the added
  paragraph, the changed blocks, and the placeholder after the new paragraph; it removes the
  highlight and the three equal paragraphs and puts one break marker before the checklist.
  The expectations of the test hold of the result.
\<close>

lemma test_blocks_compacted:
  "compacted test_blocks
     = [Child 0 (plain_paragraph ''This is a test paragraph''), Child 1 test_added,
        Child 2 test_list, Child 3 test_info, Child 4 test_new,
        Child 5 (plain_paragraph ''This is a placeholder''), BreakClone, Child 7 test_checklist]"
  by code_simp

lemma test_expectations:
  "str_includes (serialized (compacted test_blocks)) ''diff-context-break''
   \<and> str_includes (serialized (compacted test_blocks)) ''checklist item 1''
   \<and> str_includes (serialized (compacted test_blocks)) ''checklist item 5''
   \<and> str_includes (serialized (compacted test_blocks)) ''A new paragraph''
   \<and> str_includes (serialized (compacted test_blocks)) ''This is a test paragraph''
   \<and> str_includes (serialized (compacted test_blocks)) ''Content in an info block''
   \<and> \<not> str_includes (serialized (compacted test_blocks)) ''same on both sides''
   \<and> \<not> str_includes (serialized (compacted test_blocks)) ''this is a highlight''"
  by code_simp

section \<open>No diff for a new document\<close>

text \<open>C10: \<^verbatim>\<open>toEmailDiff(null, after)\<close> is the empty string, whatever \<open>after\<close> and the options are.\<close>

theorem toEmailDiff_without_before: "toEmailDiff L None after options = Inr []"
  by (simp add: toEmailDiff_def)

section \<open>From a document to its content tree\<close>

text \<open>
  C1: a document without replicated state is converted by parsing its text with the Markdown
  parser; a document with replicated state is converted by applying the state to a new
  \<^verbatim>\<open>Y.Doc\<close> and mapping it through \<^verbatim>\<open>yDocToProsemirrorJSON\<close> and \<^verbatim>\<open>Node.fromJSON\<close>, an exception
  of any of the three being thrown on, and then neither the parser nor the text has any part
  in the result.
\<close>

theorem toProsemirror_state_or_text:
  "toProsemirror L (document\<lparr> doc_state := None \<rparr>) = parser_parse L (doc_text document)
   \<and> toProsemirror L (document\<lparr> doc_state := Some state \<rparr>)
       = (case Y_applyUpdate L (Y_Doc L) state of
            Inl err \<Rightarrow> Inl err
          | Inr ydoc \<Rightarrow>
              (case yDocToProsemirrorJSON L ydoc ''default'' of
                 Inl err \<Rightarrow> Inl err
               | Inr json \<Rightarrow> Node_fromJSON L json))
   \<and> toProsemirror (L\<lparr> parser_parse := parse' \<rparr>) (document\<lparr> doc_state := Some state, doc_text := text' \<rparr>)
       = toProsemirror L (document\<lparr> doc_state := Some state \<rparr>)"
  by (simp add: toProsemirror_def split: sum.splits)

section \<open>Applying Markdown to a document\<close>




section \<open>The shell of a diff\<close>

text \<open>
  C2, as the code has it: when both renderings have an article, \<^verbatim>\<open>diff\<close> returns the page
  rendered for \<open>before\<close> with the content of its article replaced by the diff of the two
  articles' contents; of the rendering of \<open>after\<close> only the content of the article is used.
\<close>

theorem diff_reembeds_in_before_shell:
  assumes "toHTML L b options = Inr beforeHTML"
    and "toHTML L after options = Inr afterHTML"
    and "article_innerHTML L (JSDOM L beforeHTML) = Some beforeArticle"
    and "article_innerHTML L (JSDOM L afterHTML) = Some afterArticle"
  shows "diff L (Some b) after options
           = Inr (serialize L (set_article_innerHTML L (JSDOM L beforeHTML)
                    (htmldiff L beforeArticle afterArticle)))
         \<and> (toHTML L after' options = Inr afterHTML'
            \<and> article_innerHTML L (JSDOM L afterHTML') = Some afterArticle
              \<longrightarrow> diff L (Some b) after' options = diff L (Some b) after options)"
  using assms by (simp add: diff_def Let_def)

text \<open>The theorem at a revision with a left-to-right title and one with a right-to-left title.\<close>

theorem diff_reembeds_in_before_shell_witness:
  "toHTML demo revision_hello None = Inr hello_page
   \<and> toHTML demo revision_shalom None = Inr shalom_page
   \<and> toHTML demo revision_shalom_later None = Inr shalom_page
   \<and> article_innerHTML demo (JSDOM demo hello_page) = Some hello_article
   \<and> article_innerHTML demo (JSDOM demo shalom_page) = Some shalom_article
   \<and> diff demo (Some revision_hello) revision_shalom None
      = Inr (serialize demo (set_article_innerHTML demo (JSDOM demo hello_page)
               (htmldiff demo hello_article shalom_article)))
   \<and> diff demo (Some revision_hello) revision_shalom_later None
      = diff demo (Some revision_hello) revision_shalom None"
proof -
  have b: "toHTML demo revision_hello None = Inr hello_page"
    by code_simp
  have a: "toHTML demo revision_shalom None = Inr shalom_page"
    by code_simp
  have l: "toHTML demo revision_shalom_later None = Inr shalom_page"
    by code_simp
  have ba: "article_innerHTML demo (JSDOM demo hello_page) = Some hello_article"
    by code_simp
  have aa: "article_innerHTML demo (JSDOM demo shalom_page) = Some shalom_article"
    by code_simp
  from diff_reembeds_in_before_shell[OF b a ba aa, of revision_shalom_later shalom_page] l aa
  have "diff demo (Some revision_hello) revision_shalom None
      = Inr (serialize demo (set_article_innerHTML demo (JSDOM demo hello_page)
               (htmldiff demo hello_article shalom_article)))"
    and "diff demo (Some revision_hello) revision_shalom_later None
      = diff demo (Some revision_hello) revision_shalom None"
    by blast+
  with b a l ba aa show ?thesis
    by (intro conjI)
qed

text \<open>
  C2 as stated fails there: the page returned carries the style sheet rendered for \<open>before\<close>,
  not the one rendered for \<open>after\<close>.
\<close>

theorem diff_after_shell_counterexample:
  \<open>diff demo (Some revision_hello) revision_shalom None
     = Inr (''<!DOCTYPE html><html><head><style>.ProseMirror{direction:ltr}</style></head><body><article>''
            @ htmldiff demo hello_article shalom_article @ ''</article></body></html>'')
   \<and> diff_into_after_shell demo revision_hello revision_shalom None
     = Inr (''<!DOCTYPE html><html><head><style>.ProseMirror{direction:rtl}</style></head><body><article>''
            @ htmldiff demo hello_article shalom_article @ ''</article></body></html>'')
   \<and> diff demo (Some revision_hello) revision_shalom None
     \<noteq> diff_into_after_shell demo revision_hello revision_shalom None\<close>
  by code_simp

text \<open>Where the two renderings have the same shell, the code and the specification agree.\<close>

lemma diff_same_shell:
  assumes "toHTML L b options = Inr beforeHTML"
    and "toHTML L after options = Inr afterHTML"
    and "set_article_innerHTML L (JSDOM L beforeHTML) = set_article_innerHTML L (JSDOM L afterHTML)"
  shows "diff L (Some b) after options = diff_into_after_shell L b after options"
  using assms by (simp add: diff_def diff_into_after_shell_def Let_def split: option.splits)

text \<open>Where a rendering has no article, for instance after \<^verbatim>\<open>renderToString\<close> has thrown,
  \<^verbatim>\<open>diff\<close> throws.\<close>

lemma diff_without_article:
  assumes "toHTML L b options = Inr beforeHTML"
    and "toHTML L after options = Inr afterHTML"
    and "article_innerHTML L (JSDOM L beforeHTML) = None
           \<or> article_innerHTML L (JSDOM L afterHTML) = None"
  shows "diff L (Some b) after options
           = Inl (TypeError ''Cannot read properties of undefined (reading 'innerHTML')'')"
  using assms by (auto simp: diff_def Let_def split: option.splits)

text \<open>Where a document cannot be converted, \<^verbatim>\<open>diff\<close> throws what \<^verbatim>\<open>toProsemirror\<close> throws, that
  of \<open>before\<close> first.\<close>

lemma diff_without_rendering:
  "toHTML L b options = Inl err \<Longrightarrow> diff L (Some b) after options = Inl err"
  "toHTML L b options = Inr beforeHTML \<Longrightarrow> toHTML L after options = Inl err
     \<Longrightarrow> diff L (Some b) after options = Inl err"
  "toProsemirror L document = Inl err \<Longrightarrow> toHTML L document options = Inl err"
  by (simp_all add: diff_def toHTML_def)

section \<open>Loading a document into the collaboration server\<close>

text \<open>
  C6: when the live \<^verbatim>\<open>Y.Doc\<close> already has content, \<^verbatim>\<open>onLoadDocument\<close> returns nothing and
  touches neither the database nor the log. Otherwise it opens a transaction and reads the
  Document with \<^verbatim>\<open>lock: UPDATE\<close>; a stored state is applied to a new \<^verbatim>\<open>Y.Doc\<close>, which is
  returned, and nothing is written; without a stored state the \<^verbatim>\<open>Y.Doc\<close> made from the text
  by \<^verbatim>\<open>markdownToYDoc\<close> is returned after its encoding has been written to the row, in the
  same transaction, which is then committed. Where decoding the state, making the \<^verbatim>\<open>Y.Doc\<close>
  or encoding it throws, the exception is thrown on and the transaction is rolled back with
  nothing written.
\<close>

theorem onLoadDocument_cases:
  "(\<not> isEmpty C data_document ''default''
      \<longrightarrow> onLoadDocument L C s documentName data_document = (Inr None, s))
   \<and> (isEmpty C data_document ''default'' \<and> documentId_of documentName = Some i
       \<and> find (\<lambda>row. doc_id row = i) (database s) = Some document \<and> doc_state document = Some state
      \<longrightarrow> onLoadDocument L C s documentName data_document
            = (case Y_applyUpdate L (Y_Doc L) state of
                 Inr ydoc \<Rightarrow>
                   (Inr (Some ydoc),
                    s\<lparr> queries := queries s @ [Begin, FindOne (Some i) UPDATE, Commit],
                       log := log s @ [Info ''database'' (''Document '' @ i @ '' is in database state'')] \<rparr>)
               | Inl err \<Rightarrow>
                   (Inl err,
                    s\<lparr> queries := queries s @ [Begin, FindOne (Some i) UPDATE, Rollback],
                       log := log s @ [Info ''database'' (''Document '' @ i @ '' is in database state'')] \<rparr>)))
   \<and> (isEmpty C data_document ''default'' \<and> documentId_of documentName = Some i
       \<and> find (\<lambda>row. doc_id row = i) (database s) = Some document \<and> doc_state document = None
      \<longrightarrow> onLoadDocument L C s documentName data_document
            = (case markdownToYDoc C (doc_text document) ''default'' of
                 Inr ydoc \<Rightarrow>
                   (case Y_encodeStateAsUpdate L ydoc of
                      Inr state \<Rightarrow>
                        (Inr (Some ydoc),
                         s\<lparr> database := update_state (database s) i state,
                            queries := queries s @ [Begin, FindOne (Some i) UPDATE, Update i state, Commit],
                            log := log s @ [Info ''database''
                                          (''Document '' @ i @ '' is not in state, creating from markdown'')] \<rparr>)
                    | Inl err \<Rightarrow>
                        (Inl err,
                         s\<lparr> queries := queries s @ [Begin, FindOne (Some i) UPDATE, Rollback],
                            log := log s @ [Info ''database''
                                          (''Document '' @ i @ '' is not in state, creating from markdown'')] \<rparr>))
               | Inl err \<Rightarrow>
                   (Inl err,
                    s\<lparr> queries := queries s @ [Begin, FindOne (Some i) UPDATE, Rollback],
                       log := log s @ [Info ''database''
                                     (''Document '' @ i @ '' is not in state, creating from markdown'')] \<rparr>)))"
proof (intro conjI impI)
  assume "\<not> isEmpty C data_document ''default''"
  then show "onLoadDocument L C s documentName data_document = (Inr None, s)"
    by (simp add: onLoadDocument_def)
next
  assume a: "isEmpty C data_document ''default'' \<and> documentId_of documentName = Some i
       \<and> find (\<lambda>row. doc_id row = i) (database s) = Some document \<and> doc_state document = Some state"
  then show "onLoadDocument L C s documentName data_document
            = (case Y_applyUpdate L (Y_Doc L) state of
                 Inr ydoc \<Rightarrow>
                   (Inr (Some ydoc),
                    s\<lparr> queries := queries s @ [Begin, FindOne (Some i) UPDATE, Commit],
                       log := log s @ [Info ''database'' (''Document '' @ i @ '' is in database state'')] \<rparr>)
               | Inl err \<Rightarrow>
                   (Inl err,
                    s\<lparr> queries := queries s @ [Begin, FindOne (Some i) UPDATE, Rollback],
                       log := log s @ [Info ''database'' (''Document '' @ i @ '' is in database state'')] \<rparr>))"
    by (simp add: onLoadDocument_def transaction_def findOne_def Let_def split: sum.splits)
next
  assume a: "isEmpty C data_document ''default'' \<and> documentId_of documentName = Some i
       \<and> find (\<lambda>row. doc_id row = i) (database s) = Some document \<and> doc_state document = None"
  then have "doc_id document = i"
    by (auto simp: find_Some_iff)
  with a show "onLoadDocument L C s documentName data_document
            = (case markdownToYDoc C (doc_text document) ''default'' of
                 Inr ydoc \<Rightarrow>
                   (case Y_encodeStateAsUpdate L ydoc of
                      Inr state \<Rightarrow>
                        (Inr (Some ydoc),
                         s\<lparr> database := update_state (database s) i state,
                            queries := queries s @ [Begin, FindOne (Some i) UPDATE, Update i state, Commit],
                            log := log s @ [Info ''database''
                                          (''Document '' @ i @ '' is not in state, creating from markdown'')] \<rparr>)
                    | Inl err \<Rightarrow>
                        (Inl err,
                         s\<lparr> queries := queries s @ [Begin, FindOne (Some i) UPDATE, Rollback],
                            log := log s @ [Info ''database''
                                          (''Document '' @ i @ '' is not in state, creating from markdown'')] \<rparr>))
               | Inl err \<Rightarrow>
                   (Inl err,
                    s\<lparr> queries := queries s @ [Begin, FindOne (Some i) UPDATE, Rollback],
                       log := log s @ [Info ''database''
                                     (''Document '' @ i @ '' is not in state, creating from markdown'')] \<rparr>))"
    by (simp add: onLoadDocument_def transaction_def findOne_def Let_def split: sum.splits)
qed

text \<open>The three cases on a database with one Document: a live document with content, a row
  with state and a row with text only; and a row whose state cannot be decoded.\<close>

theorem onLoadDocument_cases_witness:
  "\<not> isEmpty demo_collaboration [1] ''default''
   \<and> onLoadDocument demo demo_collaboration (empty_server\<lparr> database := [stored_state] \<rparr>)
        ''document.abc'' [1]
       = (Inr None, empty_server\<lparr> database := [stored_state] \<rparr>)
   \<and> isEmpty demo_collaboration [] ''default''
   \<and> documentId_of ''document.abc'' = Some ''abc''
   \<and> find (\<lambda>row. doc_id row = ''abc'') [stored_state] = Some stored_state
   \<and> doc_state stored_state = Some [66, 111]
   \<and> onLoadDocument demo demo_collaboration (empty_server\<lparr> database := [stored_state] \<rparr>)
        ''document.abc'' []
       = (Inr (Some [66, 111]),
          empty_server\<lparr> database := [stored_state],
                         queries := [Begin, FindOne (Some ''abc'') UPDATE, Commit],
                         log := [Info ''database'' ''Document abc is in database state''] \<rparr>)
   \<and> find (\<lambda>row. doc_id row = ''abc'') [stored_text] = Some stored_text
   \<and> doc_state stored_text = None
   \<and> onLoadDocument demo demo_collaboration (empty_server\<lparr> database := [stored_text] \<rparr>)
        ''document.abc'' []
       = (Inr (Some (bytes_of ''Body'')),
          empty_server\<lparr> database := [stored_text\<lparr> doc_state := Some (bytes_of ''Body'') \<rparr>],
                         queries := [Begin, FindOne (Some ''abc'') UPDATE,
                                     Update ''abc'' (bytes_of ''Body''), Commit],
                         log := [Info ''database''
                                   ''Document abc is not in state, creating from markdown''] \<rparr>)
   \<and> find (\<lambda>row. doc_id row = ''abc'') [stored_empty] = Some stored_empty
   \<and> doc_state stored_empty = Some []
   \<and> onLoadDocument demo demo_collaboration (empty_server\<lparr> database := [stored_empty] \<rparr>)
        ''document.abc'' []
       = (Inl (Error ''Unexpected end of array''),
          empty_server\<lparr> database := [stored_empty],
                         queries := [Begin, FindOne (Some ''abc'') UPDATE, Rollback],
                         log := [Info ''database'' ''Document abc is in database state''] \<rparr>)"
proof -
  have n: "\<not> isEmpty demo_collaboration [1] ''default''"
    and e: "isEmpty demo_collaboration [] ''default''"
    by (simp_all add: demo_collaboration_def)
  have i: "documentId_of ''document.abc'' = Some ''abc''"
    by code_simp
  have f: "find (\<lambda>row. doc_id row = ''abc'') (database (empty_server\<lparr> database := [stored_state] \<rparr>))
             = Some stored_state"
    and st: "doc_state stored_state = Some [66, 111]"
    by (simp_all add: stored_state_def)
  have g: "find (\<lambda>row. doc_id row = ''abc'') (database (empty_server\<lparr> database := [stored_text] \<rparr>))
             = Some stored_text"
    and t: "doc_state stored_text = None" "doc_id stored_text = ''abc''" "doc_text stored_text = ''Body''"
    by (simp_all add: stored_text_def)
  have h: "find (\<lambda>row. doc_id row = ''abc'') (database (empty_server\<lparr> database := [stored_empty] \<rparr>))
             = Some stored_empty"
    and se: "doc_state stored_empty = Some []"
    by (simp_all add: stored_empty_def)
  have m: "markdownToYDoc demo_collaboration ''Body'' ''default'' = Inr (bytes_of ''Body'')"
    and y: "Y_encodeStateAsUpdate demo (bytes_of ''Body'') = Inr (bytes_of ''Body'')"
      "Y_applyUpdate demo (Y_Doc demo) [66, 111] = Inr [66, 111]"
      "Y_applyUpdate demo (Y_Doc demo) [] = Inl (Error ''Unexpected end of array'')"
    by (simp_all add: demo_collaboration_def demo_def)
  note c1 = onLoadDocument_cases[of demo_collaboration "[1]" demo "empty_server\<lparr> database := [stored_state] \<rparr>"
      "''document.abc''"]
  note c2 = onLoadDocument_cases[of demo_collaboration "[]" demo "empty_server\<lparr> database := [stored_state] \<rparr>"
      "''document.abc''" "''abc''" stored_state "[66, 111]"]
  note c3 = onLoadDocument_cases[of demo_collaboration "[]" demo "empty_server\<lparr> database := [stored_text] \<rparr>"
      "''document.abc''" "''abc''" stored_text]
  note c4 = onLoadDocument_cases[of demo_collaboration "[]" demo "empty_server\<lparr> database := [stored_empty] \<rparr>"
      "''document.abc''" "''abc''" stored_empty "[]"]
  show ?thesis
    using c1 c2 c3 c4 n e i f st g t h se m y
    by (simp add: empty_server_def update_state_def)
qed

section \<open>Storing a document from the collaboration server\<close>

lemma set_add_nonempty: "set_add x xs \<noteq> []"
  by (auto simp: set_add_def)

lemma onChange_records: "editors_recorded s \<Longrightarrow> editors_recorded (onChange s context documentName)"
  by (simp add: editors_recorded_def onChange_def Let_def set_add_nonempty)

lemma onChange_adds:
  "map_option user_id (context_user context) \<in> set (accumulated (onChange s context documentName) documentName)"
  by (auto simp: accumulated_def onChange_def Let_def set_add_def split: option.splits)

lemma onStoreDocument_records:
  "editors_recorded s \<Longrightarrow> editors_recorded (snd (onStoreDocument C s document context documentName))"
  by (simp add: editors_recorded_def onStoreDocument_def Let_def split: option.splits)

lemma empty_server_records: "editors_recorded empty_server"
  by (simp add: editors_recorded_def empty_server_def)

lemma pop_member: "ids \<noteq> [] \<Longrightarrow> pop ids \<in> set ids"
  by (simp add: pop_def)

text \<open>
  C7: in a state where no empty set of editors is recorded (which \<open>onChange_records\<close>,
  \<open>onStoreDocument_records\<close> and \<open>empty_server_records\<close> show of every state the server
  reaches), \<^verbatim>\<open>onStoreDocument\<close> resolves, the entry of the document is deleted, and
  \<^verbatim>\<open>documentCollaborativeUpdater\<close> is called once, with the id and the \<^verbatim>\<open>Y.Doc\<close> of the
  document and a user who is the triggering user when no editors were accumulated and
  otherwise the last of the accumulated editors; an exception of the updater is written to
  the log and not thrown on.
\<close>

theorem onStoreDocument_never_throws:
  assumes "documentCollaboratorIds s documentName \<noteq> Some []"
  shows "fst (onStoreDocument C s document context documentName) = Inr ()
   \<and> documentCollaboratorIds (snd (onStoreDocument C s document context documentName)) documentName = None
   \<and> (\<exists>args. updater_calls (snd (onStoreDocument C s document context documentName))
                = updater_calls s @ [args]
          \<and> updater_documentId args = documentId_of documentName
          \<and> updater_ydoc args = document
          \<and> (accumulated s documentName = []
                \<longrightarrow> updater_userId args = map_option user_id (context_user context))
          \<and> (accumulated s documentName \<noteq> []
                \<longrightarrow> updater_userId args = last (accumulated s documentName)
                    \<and> updater_userId args \<in> set (accumulated s documentName))
          \<and> (case documentCollaborativeUpdater C args of
                None \<Rightarrow> log (snd (onStoreDocument C s document context documentName)) = log s
              | Some err \<Rightarrow>
                  log (snd (onStoreDocument C s document context documentName))
                    = log s @ [LogError ''Unable to persist document'' err (documentId_of documentName)
                                 (map_option user_id (context_user context))]))"
  using assms
  by (cases "documentCollaboratorIds s documentName")
     (auto simp: onStoreDocument_def Let_def accumulated_def pop_def split: option.splits)

text \<open>The theorem after changes by two editors, where the revision goes to the one who
  joined last, and for a store without changes from an anonymous connection, whose updater
  throws.\<close>

theorem onStoreDocument_never_throws_witness:
  "documentCollaboratorIds two_editors ''document.abc'' = Some [Some ''u1'', Some ''u2'']
   \<and> onStoreDocument demo_collaboration two_editors [66, 111] editor ''document.abc''
       = (Inr (),
          two_editors\<lparr> documentCollaboratorIds := Map.empty,
                       updater_calls := [\<lparr> updater_documentId = Some ''abc'', updater_ydoc = [66, 111],
                                            updater_userId = Some ''u2'' \<rparr>] \<rparr>)
   \<and> documentCollaboratorIds empty_server ''document.abc'' = None
   \<and> onStoreDocument demo_collaboration empty_server [66, 111] anonymous ''document.abc''
       = (Inr (),
          empty_server\<lparr> updater_calls := [\<lparr> updater_documentId = Some ''abc'', updater_ydoc = [66, 111],
                                             updater_userId = None \<rparr>],
                        log := [LogError ''Unable to persist document'' (Error ''userId is required'')
                                  (Some ''abc'') None] \<rparr>)"
proof -
  have a: "documentCollaboratorIds two_editors ''document.abc'' = Some [Some ''u1'', Some ''u2'']"
    by (simp add: two_editors_def onChange_def empty_server_def editor_def reviewer_def set_add_def Let_def)
  have b: "documentCollaboratorIds empty_server ''document.abc'' = None"
    by (simp add: empty_server_def)
  have i: "documentId_of ''document.abc'' = Some ''abc''"
    by code_simp
  have m: "documentCollaboratorIds two_editors = [''document.abc'' \<mapsto> [Some ''u1'', Some ''u2'']]"
    "updater_calls two_editors = []"
    by (simp_all add: two_editors_def onChange_def empty_server_def editor_def reviewer_def set_add_def Let_def)
  have "documentCollaboratorIds two_editors ''document.abc'' \<noteq> Some []"
    by (simp add: a)
  from onStoreDocument_never_throws[OF this, of demo_collaboration "[66, 111]" editor]
  have c: "fst (onStoreDocument demo_collaboration two_editors [66, 111] editor ''document.abc'') = Inr ()"
    by blast
  have c': "snd (onStoreDocument demo_collaboration two_editors [66, 111] editor ''document.abc'')
       = two_editors\<lparr> documentCollaboratorIds := Map.empty,
                       updater_calls := [\<lparr> updater_documentId = Some ''abc'', updater_ydoc = [66, 111],
                                            updater_userId = Some ''u2'' \<rparr>] \<rparr>"
    by (simp add: onStoreDocument_def Let_def i m pop_def demo_collaboration_def)
  have "documentCollaboratorIds empty_server ''document.abc'' \<noteq> Some []"
    by (simp add: b)
  from onStoreDocument_never_throws[OF this, of demo_collaboration "[66, 111]" anonymous]
  have d: "fst (onStoreDocument demo_collaboration empty_server [66, 111] anonymous ''document.abc'') = Inr ()"
    by blast
  have d': "snd (onStoreDocument demo_collaboration empty_server [66, 111] anonymous ''document.abc'')
       = empty_server\<lparr> updater_calls := [\<lparr> updater_documentId = Some ''abc'', updater_ydoc = [66, 111],
                                             updater_userId = None \<rparr>],
                        log := [LogError ''Unable to persist document'' (Error ''userId is required'')
                                  (Some ''abc'') None] \<rparr>"
    by (simp add: onStoreDocument_def Let_def i pop_def demo_collaboration_def empty_server_def anonymous_def)
  from a b c c' d d' show ?thesis
    by (simp add: prod_eq_iff)
qed

section \<open>Sending an email\<close>

text \<open>
  C9: when \<^verbatim>\<open>beforeSend\<close> has not aborted, an exception of \<^verbatim>\<open>mailer.sendMail\<close> is counted as
  \<^verbatim>\<open>email.sending_failed\<close> and thrown to the caller, with nothing else changed; and an
  exception of \<^verbatim>\<open>Notification.update\<close> after a delivered mail is logged while \<^verbatim>\<open>send\<close>
  resolves, the mail staying delivered and counted as \<^verbatim>\<open>email.sent\<close>.
\<close>

theorem send_delivery_and_stamping_failures:
  assumes "call_beforeSend T props = Inr bsResponse" and "bsResponse \<noteq> Abort"
  shows "(sendMail S (message_of T props bsResponse) = Some err
            \<longrightarrow> send T S props metadata w
                  = (Inl err, w\<lparr> metrics := metrics w @ [(''email.sending_failed'', templateName T)] \<rparr>))
   \<and> (sendMail S (message_of T props bsResponse) = None
       \<and> metadata = Some \<lparr> notificationId = Some ident \<rparr> \<and> ident \<noteq> []
       \<and> Notification_update S ident (now S) = Some err
            \<longrightarrow> send T S props metadata w
                  = (Inr (), w\<lparr> delivered := delivered w @ [message_of T props bsResponse],
                                metrics := metrics w @ [(''email.sent'', templateName T)],
                                mail_log := mail_log w @ [MailError ''Failed to update notification'' err metadata] \<rparr>))"
  using assms
  by (cases bsResponse) (auto simp: send_def stamp_notification_def)

text \<open>The theorem for a reminder with an unreachable mail server, and with a database that
  fails after the mail has gone out.\<close>

theorem send_delivery_and_stamping_failures_witness:
  "call_beforeSend reminder ''ada@example.com'' = Inr Nothing
   \<and> sendMail mailer_down (message_of reminder ''ada@example.com'' Nothing) = Some (Error ''connect ECONNREFUSED'')
   \<and> send reminder mailer_down ''ada@example.com'' (Some \<lparr> notificationId = Some ''n1'' \<rparr>) nothing_sent
       = (Inl (Error ''connect ECONNREFUSED''),
          nothing_sent\<lparr> metrics := [(''email.sending_failed'', ''InviteReminderEmail'')] \<rparr>)
   \<and> sendMail database_down (message_of reminder ''ada@example.com'' Nothing) = None
   \<and> Notification_update database_down ''n1'' (now database_down) = Some (Error ''connection terminated'')
   \<and> send reminder database_down ''ada@example.com'' (Some \<lparr> notificationId = Some ''n1'' \<rparr>) nothing_sent
       = (Inr (),
          nothing_sent\<lparr> delivered := [message_of reminder ''ada@example.com'' Nothing],
                        metrics := [(''email.sent'', ''InviteReminderEmail'')],
                        mail_log := [MailError ''Failed to update notification'' (Error ''connection terminated'')
                                       (Some \<lparr> notificationId = Some ''n1'' \<rparr>)] \<rparr>)"
proof -
  have h: "call_beforeSend reminder ''ada@example.com'' = Inr Nothing"
    by (simp add: call_beforeSend_def reminder_def)
  have n: "Nothing \<noteq> (Abort :: unit hook_result)"
    by simp
  have m: "sendMail mailer_down (message_of reminder ''ada@example.com'' Nothing) = Some (Error ''connect ECONNREFUSED'')"
    by (simp add: mailer_down_def)
  have d: "sendMail database_down (message_of reminder ''ada@example.com'' Nothing) = None"
    "Notification_update database_down ''n1'' (now database_down) = Some (Error ''connection terminated'')"
    by (simp_all add: database_down_def)
  have t: "templateName reminder = ''InviteReminderEmail''"
    by (simp add: reminder_def)
  show ?thesis
    using send_delivery_and_stamping_failures[OF h n, where S = mailer_down
            and err = "Error ''connect ECONNREFUSED''"
            and metadata = "Some \<lparr> notificationId = Some ''n1'' \<rparr>" and w = nothing_sent]
      send_delivery_and_stamping_failures[OF h n, where S = database_down
            and err = "Error ''connection terminated''" and ident = "''n1''"
            and metadata = "Some \<lparr> notificationId = Some ''n1'' \<rparr>" and w = nothing_sent]
      h m d t
    by (simp add: nothing_sent_def)
qed

section \<open>Unsubscription is sticky\<close>

lemma holds_after_new:
  "holds_subscription (subs @ [new_subscription d u]) v d = (holds_subscription subs v d \<or> v = u)"
  by (auto simp: holds_subscription_def new_subscription_def list_ex_iff)

lemma subscribe_collaborators_result:
  "subscribe_collaborators d collaborators (subs, events)
     = (subs @ map (new_subscription d) (firsts (filter (\<lambda>u. \<not> holds_subscription subs u d) collaborators)),
        events @ map (created_event d) (firsts (filter (\<lambda>u. \<not> holds_subscription subs u d) collaborators)))"
proof (induction collaborators arbitrary: subs events)
  case Nil
  then show ?case by simp
next
  case (Cons u collaborators)
  show ?case
  proof (cases "holds_subscription subs u d")
    case True
    then show ?thesis using Cons.IH by simp
  next
    case False
    have "filter (\<lambda>v. \<not> holds_subscription (subs @ [new_subscription d u]) v d) collaborators
            = filter (\<lambda>y. y \<noteq> u) (filter (\<lambda>v. \<not> holds_subscription subs v d) collaborators)"
      by (auto simp: holds_after_new intro: filter_cong)
    with False show ?thesis using Cons.IH[of "subs @ [new_subscription d u]" "events @ [created_event d u]"]
      by simp
  qed
qed

lemma set_firsts: "set (firsts xs) = set xs"
  by (induction xs rule: firsts.induct) auto

lemma distinct_firsts: "distinct (firsts xs)"
  by (induction xs rule: firsts.induct) (auto simp: set_firsts)

lemma firsts_distinct: "distinct xs \<Longrightarrow> firsts xs = xs"
proof (induction xs)
  case Nil
  then show ?case by simp
next
  case (Cons a xs)
  then have "filter (\<lambda>y. y \<noteq> a) xs = xs"
    by (auto simp: filter_id_conv)
  with Cons show ?case by simp
qed

lemma soft_deleted_holds: "soft_deleted subs u d documents_update \<Longrightarrow> holds_subscription subs u d"
  by (auto simp: soft_deleted_def holds_subscription_def list_ex_iff)

text \<open>
  C8, on the model of the specification: the subscriptions and events created for a
  revision are those of the collaborators, in their order, who hold no enabled or
  soft-deleted subscription for the update event; a soft-deleted subscription of a user for
  the document, of whatever event kind, is not created anew; a user whose subscription for
  the update event was soft-deleted gets no event; and every collaborator without an enabled
  or soft-deleted subscription gets a subscription and an event.
\<close>

theorem unsubscription_is_sticky:
  "subscribe_collaborators d collaborators (subs, events)
     = (subs @ map (new_subscription d) (firsts (filter (\<lambda>u. \<not> holds_subscription subs u d) collaborators)),
        events @ map (created_event d) (firsts (filter (\<lambda>u. \<not> holds_subscription subs u d) collaborators)))
   \<and> (soft_deleted subs u d k \<longrightarrow>
        filter (\<lambda>sub. sub_userId sub = u \<and> sub_documentId sub = d \<and> sub_event sub = k)
          (fst (subscribe_collaborators d collaborators (subs, events)))
        = filter (\<lambda>sub. sub_userId sub = u \<and> sub_documentId sub = d \<and> sub_event sub = k) subs)
   \<and> (soft_deleted subs u d documents_update \<longrightarrow>
        filter (\<lambda>sub. sub_userId sub = u) (fst (subscribe_collaborators d collaborators (subs, events)))
          = filter (\<lambda>sub. sub_userId sub = u) subs
        \<and> filter (\<lambda>e. event_userId e = u) (snd (subscribe_collaborators d collaborators (subs, events)))
            = filter (\<lambda>e. event_userId e = u) events)
   \<and> (v \<in> set collaborators \<and> \<not> holds_subscription subs v d \<longrightarrow>
        new_subscription d v \<in> set (fst (subscribe_collaborators d collaborators (subs, events)))
        \<and> created_event d v \<in> set (snd (subscribe_collaborators d collaborators (subs, events))))"
proof (intro conjI impI)
  show "subscribe_collaborators d collaborators (subs, events)
     = (subs @ map (new_subscription d) (firsts (filter (\<lambda>u. \<not> holds_subscription subs u d) collaborators)),
        events @ map (created_event d) (firsts (filter (\<lambda>u. \<not> holds_subscription subs u d) collaborators)))"
    by (rule subscribe_collaborators_result)
next
  assume sd: "soft_deleted subs u d k"
  have "k = documents_update \<Longrightarrow> u \<notin> set (firsts (filter (\<lambda>u. \<not> holds_subscription subs u d) collaborators))"
    using sd by (simp add: set_firsts soft_deleted_holds)
  then have "filter (\<lambda>x. x = u \<and> documents_update = k)
               (firsts (filter (\<lambda>u. \<not> holds_subscription subs u d) collaborators)) = []"
    by (auto simp: filter_empty_conv)
  then show "filter (\<lambda>sub. sub_userId sub = u \<and> sub_documentId sub = d \<and> sub_event sub = k)
          (fst (subscribe_collaborators d collaborators (subs, events)))
        = filter (\<lambda>sub. sub_userId sub = u \<and> sub_documentId sub = d \<and> sub_event sub = k) subs"
    by (simp add: subscribe_collaborators_result filter_map comp_def new_subscription_def)
next
  assume sd: "soft_deleted subs u d documents_update"
  then have "u \<notin> set (firsts (filter (\<lambda>u. \<not> holds_subscription subs u d) collaborators))"
    by (simp add: set_firsts soft_deleted_holds)
  then have "filter (\<lambda>x. x = u) (firsts (filter (\<lambda>u. \<not> holds_subscription subs u d) collaborators)) = []"
    by (auto simp: filter_empty_conv)
  then show "filter (\<lambda>sub. sub_userId sub = u) (fst (subscribe_collaborators d collaborators (subs, events)))
            = filter (\<lambda>sub. sub_userId sub = u) subs"
    and "filter (\<lambda>e. event_userId e = u) (snd (subscribe_collaborators d collaborators (subs, events)))
            = filter (\<lambda>e. event_userId e = u) events"
    by (simp_all add: subscribe_collaborators_result filter_map comp_def new_subscription_def created_event_def)
next
  assume "v \<in> set collaborators \<and> \<not> holds_subscription subs v d"
  then have "v \<in> set (firsts (filter (\<lambda>u. \<not> holds_subscription subs u d) collaborators))"
    by (simp add: set_firsts)
  then show "new_subscription d v \<in> set (fst (subscribe_collaborators d collaborators (subs, events)))"
    and "created_event d v \<in> set (snd (subscribe_collaborators d collaborators (subs, events)))"
    by (simp_all add: subscribe_collaborators_result)
qed

text \<open>The theorem in the state of the repository's test: two events, for the first two
  collaborators, and the destroyed subscription of the third left alone.\<close>

theorem unsubscription_is_sticky_witness:
  "soft_deleted unsubscribed ''collaborator2'' ''document'' documents_update
   \<and> ''collaborator0'' \<in> set [''collaborator0'', ''collaborator1'', ''collaborator2'']
   \<and> \<not> holds_subscription unsubscribed ''collaborator0'' ''document''
   \<and> snd (subscribe_collaborators ''document'' [''collaborator0'', ''collaborator1'', ''collaborator2'']
            (unsubscribed, []))
       = [created_event ''document'' ''collaborator0'', created_event ''document'' ''collaborator1'']
   \<and> filter (\<lambda>sub. sub_userId sub = ''collaborator2'')
        (fst (subscribe_collaborators ''document'' [''collaborator0'', ''collaborator1'', ''collaborator2'']
               (unsubscribed, [])))
       = unsubscribed
   \<and> filter (\<lambda>sub. sub_userId sub = ''collaborator2'' \<and> sub_documentId sub = ''document''
                    \<and> sub_event sub = documents_update)
        (fst (subscribe_collaborators ''document'' [''collaborator0'', ''collaborator1'', ''collaborator2'']
               (unsubscribed, [])))
       = unsubscribed
   \<and> new_subscription ''document'' ''collaborator0''
        \<in> set (fst (subscribe_collaborators ''document'' [''collaborator0'', ''collaborator1'', ''collaborator2'']
               (unsubscribed, [])))"
proof -
  have sd: "soft_deleted unsubscribed ''collaborator2'' ''document'' documents_update"
    by code_simp
  have h0: "\<not> holds_subscription unsubscribed ''collaborator0'' ''document''"
    by code_simp
  have ev: "snd (subscribe_collaborators ''document'' [''collaborator0'', ''collaborator1'', ''collaborator2'']
            (unsubscribed, []))
       = [created_event ''document'' ''collaborator0'', created_event ''document'' ''collaborator1'']"
    by code_simp
  have f: "filter (\<lambda>sub. sub_userId sub = ''collaborator2'') unsubscribed = unsubscribed"
    "filter (\<lambda>sub. sub_userId sub = ''collaborator2'' \<and> sub_documentId sub = ''document''
                    \<and> sub_event sub = documents_update) unsubscribed = unsubscribed"
    by code_simp+
  note sticky = unsubscription_is_sticky[of "''document''"
      "[''collaborator0'', ''collaborator1'', ''collaborator2'']" unsubscribed "[]"
      "''collaborator2''" documents_update "''collaborator0''"]
  from sticky sd have
    "filter (\<lambda>sub. sub_userId sub = ''collaborator2'')
        (fst (subscribe_collaborators ''document'' [''collaborator0'', ''collaborator1'', ''collaborator2'']
               (unsubscribed, [])))
       = filter (\<lambda>sub. sub_userId sub = ''collaborator2'') unsubscribed"
    by blast
  then have kept: "filter (\<lambda>sub. sub_userId sub = ''collaborator2'')
        (fst (subscribe_collaborators ''document'' [''collaborator0'', ''collaborator1'', ''collaborator2'']
               (unsubscribed, [])))
       = unsubscribed"
    by (simp only: f)
  from sticky sd have
    "filter (\<lambda>sub. sub_userId sub = ''collaborator2'' \<and> sub_documentId sub = ''document''
                    \<and> sub_event sub = documents_update)
        (fst (subscribe_collaborators ''document'' [''collaborator0'', ''collaborator1'', ''collaborator2'']
               (unsubscribed, [])))
       = filter (\<lambda>sub. sub_userId sub = ''collaborator2'' \<and> sub_documentId sub = ''document''
                    \<and> sub_event sub = documents_update) unsubscribed"
    by blast
  then have same: "filter (\<lambda>sub. sub_userId sub = ''collaborator2'' \<and> sub_documentId sub = ''document''
                    \<and> sub_event sub = documents_update)
        (fst (subscribe_collaborators ''document'' [''collaborator0'', ''collaborator1'', ''collaborator2'']
               (unsubscribed, [])))
       = unsubscribed"
    by (simp only: f)
  have m: "''collaborator0'' \<in> set [''collaborator0'', ''collaborator1'', ''collaborator2'']"
    by simp
  from sticky m h0 have created: "new_subscription ''document'' ''collaborator0''
        \<in> set (fst (subscribe_collaborators ''document'' [''collaborator0'', ''collaborator1'', ''collaborator2'']
               (unsubscribed, [])))"
    by blast
  from sd m h0 ev kept same created show ?thesis
    by (intro conjI)
qed

end
